theory Spec2Isabelle
  imports Main "HOL-Library.Word" "HOL-Library.Sublist" "HOL-Library.AList"
begin

section \<open>Data model of pkg/operator/deployment/sync/api.go\<close>

text \<open>
  A Go \<open>map[string]string\<close> is an association list whose keys are pairwise distinct
  (predicate \<open>wf_StrMap\<close>); \<open>range\<close> visits the entries in list order, which stands for
  the unspecified iteration order of Go.  Reading a missing key yields the empty string,
  as Go's zero value does.
\<close>

type_synonym StrMap = "(string \<times> string) list"

definition wf_StrMap :: "StrMap \<Rightarrow> bool" where
  "wf_StrMap m = distinct (map fst m)"

definition lookup :: "StrMap \<Rightarrow> string \<Rightarrow> string" where
  "lookup m k = (case map_of m k of None \<Rightarrow> [] | Some v \<Rightarrow> v)"

text \<open>Opaque values of the orchestration platform's own types.\<close>

datatype PodSpec = PodSpec nat
datatype DeploymentStrategy = DeploymentStrategy nat
datatype Pod = Pod nat
datatype Autoscaler = Autoscaler nat

text \<open>\<open>kapps.Deployment\<close>, restricted to the fields api.go reads.\<close>

record Deployment =
  Name :: string
  Labels :: StrMap
  Annotations :: StrMap
  Strategy :: DeploymentStrategy
  TemplateSpec :: PodSpec
  ReadyReplicas :: "32 word"

record Service =
  ServiceName :: string
  ServiceBody :: nat

record VirtualService =
  VirtualServiceName :: string
  VirtualServiceBody :: nat

text \<open>\<open>userconfig.API\<close> and \<open>spec.API\<close>.\<close>

record UserAPI =
  ConfigName :: string
  ConfigBody :: nat

record API =
  UserConfig :: UserAPI
  APIName :: string
  ID :: string
  DeploymentID :: string
  Key :: string
  ProjectID :: string

record Status =
  StatusAPIName :: string

record AutoscalingSpec =
  MinReplicas :: "32 word"

record SubReplicaCounts =
  Ready :: "32 word"
  Failed :: "32 word"

record ReplicaCounts =
  Updated :: SubReplicaCounts
  Stale :: SubReplicaCounts

text \<open>
  Modelled from the spec: \<open>SubReplicaCounts.TotalFailed\<close> is declared outside api.go; the
  spec calls it the failed count among the pods of one revision.
\<close>

definition TotalFailed :: "SubReplicaCounts \<Rightarrow> 32 word" where
  "TotalFailed src = Failed src"

datatype error =
    Err string
  | Wrap error string
  | ErrorAPIUpdating string
  | ErrorAPINotDeployed string

text \<open>A detached goroutine started with \<open>go\<close>.\<close>

datatype Task = GoDeleteK8sResources string

text \<open>Every call that leaves the package is recorded, in program order.\<close>

datatype Call =
    GetDeploymentCall string
  | CreateDeploymentCall Deployment
  | UpdateDeploymentCall Deployment
  | DeleteDeploymentCall string
  | GetServiceCall string
  | CreateServiceCall Service
  | UpdateServiceCall Service Service
  | DeleteServiceCall string
  | GetVirtualServiceCall string
  | CreateVirtualServiceCall VirtualService
  | UpdateVirtualServiceCall VirtualService VirtualService
  | DeleteVirtualServiceCall string
  | ListPodsByLabelCall string string
  | UploadMsgpackToS3Call API string string
  | DeleteS3DirCall string string bool
  | DownloadAPISpecCall string string
  | AddAPIToDashboardCall string string
  | RemoveAPIFromDashboardCall "string list" string string
  | GetAllStatusesCall
  | PrintErrorCall error "string list"
  | CronRunCall nat string Autoscaler
  | CronCancelCall nat

text \<open>
  The pure collaborators that api.go calls and that live in other packages are parameters
  of the model, together with the two cluster constants.
\<close>

record Env =
  K8sName :: "string \<Rightarrow> string"
  DeploymentSpec :: "API \<Rightarrow> Deployment option \<Rightarrow> Deployment"
  serviceSpec :: "API \<Rightarrow> Service"
  virtualServiceSpec :: "API \<Rightarrow> VirtualService"
  GetAPISpec :: "UserAPI \<Rightarrow> string \<Rightarrow> string \<Rightarrow> API"
  PodComputesEqual :: "PodSpec \<Rightarrow> PodSpec \<Rightarrow> bool"
  DeploymentStrategiesMatch :: "DeploymentStrategy \<Rightarrow> DeploymentStrategy \<Rightarrow> bool"
  AutoscalingFromAnnotations :: "Deployment \<Rightarrow> error + AutoscalingSpec"
  getReplicaCounts :: "Deployment \<Rightarrow> Pod list \<Rightarrow> ReplicaCounts"
  AutoscaleFn :: "Deployment \<Rightarrow> error + Autoscaler"
  GetLabel :: "Deployment \<Rightarrow> string \<Rightarrow> error + string"
  filepathJoin :: "string \<Rightarrow> string \<Rightarrow> string"
  Bucket :: string
  ClusterName :: string

text \<open>
  The world outside the function bodies: the cluster's three object tables, the pods, the
  persisted specs, the status listing, the supply of random names, the process-wide
  table \<open>_autoscalerCrons\<close> with the recurring tasks that are running, the goroutines
  started, and the record of calls.  \<open>faults c n\<close> is the error, if any, with which
  the external call \<open>c\<close> fails when it is the \<open>n\<close>-th call recorded.
\<close>

record World =
  deployments :: "string \<rightharpoonup> Deployment"
  services :: "string \<rightharpoonup> Service"
  virtualServices :: "string \<rightharpoonup> VirtualService"
  pods :: "string \<Rightarrow> string \<Rightarrow> Pod list"
  storedSpecs :: "string \<Rightarrow> string \<Rightarrow> API"
  statuses :: "Status list"
  randomNames :: "nat \<Rightarrow> string"
  randomUsed :: nat
  autoscalerCrons :: "string \<rightharpoonup> nat"
  running :: "nat \<rightharpoonup> string"
  cronsStarted :: nat
  spawned :: "Task list"
  faults :: "Call \<Rightarrow> nat \<Rightarrow> error option"
  trace :: "Call list"

section \<open>The equality evaluator\<close>

text \<open>\<open>strings.Contains(s, substr)\<close>: some suffix of \<open>s\<close> starts with \<open>substr\<close>.\<close>

fun Contains :: "string \<Rightarrow> string \<Rightarrow> bool" where
  "Contains [] substr = (substr = [])"
| "Contains (c # cs) substr = (prefix substr (c # cs) \<or> Contains cs substr)"

text \<open>
  Modelled from the spec: \<open>maps.StrMapsEqual\<close> is declared in pkg/lib/maps; the spec asks
  for order-independent key/value equality in which a missing key differs from an empty
  value.  Equal sizes, and every entry of the first map is an entry of the second.
\<close>

definition StrMapsEqual :: "StrMap \<Rightarrow> StrMap \<Rightarrow> bool" where
  "StrMapsEqual m1 m2 =
     (length m1 = length m2 \<and> list_all (\<lambda>(k, v1). map_of m2 k = Some v1) m1)"

text \<open>The body of the loop of \<open>extractCortexAnnotations\<close>, and the loop.\<close>

definition keepCortexAnnotation :: "string \<times> string \<Rightarrow> StrMap \<Rightarrow> StrMap" where
  "keepCortexAnnotation = (\<lambda>(key, val) cortexAnnotations.
     if Contains key ''cortex.dev/'' then AList.update key val cortexAnnotations
     else cortexAnnotations)"

definition extractCortexAnnotations :: "Deployment \<Rightarrow> StrMap" where
  "extractCortexAnnotations obj = fold keepCortexAnnotation (Annotations obj) []"

definition doCortexAnnotationsMatch :: "Deployment \<Rightarrow> Deployment \<Rightarrow> bool" where
  "doCortexAnnotationsMatch obj1 obj2 =
     (let cortexAnnotations1 = extractCortexAnnotations obj1;
          cortexAnnotations2 = extractCortexAnnotations obj2
      in StrMapsEqual cortexAnnotations1 cortexAnnotations2)"

definition areAPIsEqual :: "Env \<Rightarrow> Deployment \<Rightarrow> Deployment \<Rightarrow> bool" where
  "areAPIsEqual env d1 d2 =
     (PodComputesEqual env (TemplateSpec d1) (TemplateSpec d2) \<and>
      DeploymentStrategiesMatch env (Strategy d1) (Strategy d2) \<and>
      lookup (Labels d1) ''apiName'' = lookup (Labels d2) ''apiName'' \<and>
      lookup (Labels d1) ''apiID'' = lookup (Labels d2) ''apiID'' \<and>
      lookup (Labels d1) ''deploymentID'' = lookup (Labels d2) ''deploymentID'' \<and>
      doCortexAnnotationsMatch d1 d2)"

section \<open>External collaborators\<close>

text \<open>
  One call that leaves the package: it is put on record, and it fails when the world's
  fault table says so.
\<close>

definition call :: "Call \<Rightarrow> World \<Rightarrow> error option \<times> World" where
  "call c w = (faults w c (length (trace w)), w\<lparr>trace := trace w @ [c]\<rparr>)"

text \<open>
  The Cluster Object Gateway (\<open>config.K8s\<close>) is declared outside api.go.  Each operation
  is one call on one object; it returns the object or an absence indicator and fails with
  the gateway's error.  A failed call leaves the tables as they were; a create or update
  stores the object under its name, a delete removes it.
\<close>

text \<open>
  Modelled from the spec: the gateway's read of a workload object
  (\<open>config.K8s.GetDeployment\<close>): the object, or \<open>None\<close> when
  absent, or the gateway's error.
\<close>

definition GetDeployment :: "string \<Rightarrow> World \<Rightarrow> (error + Deployment option) \<times> World" where
  "GetDeployment name w =
     (case call (GetDeploymentCall name) w of
        (Some err, w1) \<Rightarrow> (Inl err, w1)
      | (None, w1) \<Rightarrow> (Inr (deployments w1 name), w1))"

text \<open>
  Modelled from the spec: the gateway's create of a workload object
  (\<open>config.K8s.CreateDeployment\<close>); on success the object is stored under its
  name.
\<close>

definition CreateDeployment :: "Deployment \<Rightarrow> World \<Rightarrow> error option \<times> World" where
  "CreateDeployment d w =
     (case call (CreateDeploymentCall d) w of
        (Some err, w1) \<Rightarrow> (Some err, w1)
      | (None, w1) \<Rightarrow> (None, w1\<lparr>deployments := (deployments w1)(Name d \<mapsto> d)\<rparr>))"

text \<open>
  Modelled from the spec: the gateway's update of a workload object
  (\<open>config.K8s.UpdateDeployment\<close>); on success the object replaces the one
  stored under its name.
\<close>

definition UpdateDeployment :: "Deployment \<Rightarrow> World \<Rightarrow> error option \<times> World" where
  "UpdateDeployment d w =
     (case call (UpdateDeploymentCall d) w of
        (Some err, w1) \<Rightarrow> (Some err, w1)
      | (None, w1) \<Rightarrow> (None, w1\<lparr>deployments := (deployments w1)(Name d \<mapsto> d)\<rparr>))"

text \<open>
  Modelled from the spec: the gateway's delete of a workload object
  (\<open>config.K8s.DeleteDeployment\<close>); on success no object is left under the
  name.
\<close>

definition DeleteDeployment :: "string \<Rightarrow> World \<Rightarrow> error option \<times> World" where
  "DeleteDeployment name w =
     (case call (DeleteDeploymentCall name) w of
        (Some err, w1) \<Rightarrow> (Some err, w1)
      | (None, w1) \<Rightarrow> (None, w1\<lparr>deployments := (deployments w1)(name := None)\<rparr>))"

text \<open>
  Modelled from the spec: the gateway's read of an endpoint object
  (\<open>config.K8s.GetService\<close>).
\<close>

definition GetService :: "string \<Rightarrow> World \<Rightarrow> (error + Service option) \<times> World" where
  "GetService name w =
     (case call (GetServiceCall name) w of
        (Some err, w1) \<Rightarrow> (Inl err, w1)
      | (None, w1) \<Rightarrow> (Inr (services w1 name), w1))"

text \<open>
  Modelled from the spec: the gateway's create of an endpoint object
  (\<open>config.K8s.CreateService\<close>).
\<close>

definition CreateService :: "Service \<Rightarrow> World \<Rightarrow> error option \<times> World" where
  "CreateService s w =
     (case call (CreateServiceCall s) w of
        (Some err, w1) \<Rightarrow> (Some err, w1)
      | (None, w1) \<Rightarrow> (None, w1\<lparr>services := (services w1)(ServiceName s \<mapsto> s)\<rparr>))"

text \<open>
  Modelled from the spec: the gateway's update of an endpoint object from the prior live
  object (\<open>config.K8s.UpdateService\<close>).
\<close>

definition UpdateService :: "Service \<Rightarrow> Service \<Rightarrow> World \<Rightarrow> error option \<times> World" where
  "UpdateService prev s w =
     (case call (UpdateServiceCall prev s) w of
        (Some err, w1) \<Rightarrow> (Some err, w1)
      | (None, w1) \<Rightarrow> (None, w1\<lparr>services := (services w1)(ServiceName s \<mapsto> s)\<rparr>))"

text \<open>
  Modelled from the spec: the gateway's delete of an endpoint object
  (\<open>config.K8s.DeleteService\<close>).
\<close>

definition DeleteService :: "string \<Rightarrow> World \<Rightarrow> error option \<times> World" where
  "DeleteService name w =
     (case call (DeleteServiceCall name) w of
        (Some err, w1) \<Rightarrow> (Some err, w1)
      | (None, w1) \<Rightarrow> (None, w1\<lparr>services := (services w1)(name := None)\<rparr>))"

text \<open>
  Modelled from the spec: the gateway's read of a routing-rule object
  (\<open>config.K8s.GetVirtualService\<close>).
\<close>

definition GetVirtualService ::
  "string \<Rightarrow> World \<Rightarrow> (error + VirtualService option) \<times> World" where
  "GetVirtualService name w =
     (case call (GetVirtualServiceCall name) w of
        (Some err, w1) \<Rightarrow> (Inl err, w1)
      | (None, w1) \<Rightarrow> (Inr (virtualServices w1 name), w1))"

text \<open>
  Modelled from the spec: the gateway's create of a routing-rule object
  (\<open>config.K8s.CreateVirtualService\<close>).
\<close>

definition CreateVirtualService :: "VirtualService \<Rightarrow> World \<Rightarrow> error option \<times> World" where
  "CreateVirtualService v w =
     (case call (CreateVirtualServiceCall v) w of
        (Some err, w1) \<Rightarrow> (Some err, w1)
      | (None, w1) \<Rightarrow>
          (None, w1\<lparr>virtualServices := (virtualServices w1)(VirtualServiceName v \<mapsto> v)\<rparr>))"

text \<open>
  Modelled from the spec: the gateway's update of a routing-rule object from the prior
  live object (\<open>config.K8s.UpdateVirtualService\<close>).
\<close>

definition UpdateVirtualService ::
  "VirtualService \<Rightarrow> VirtualService \<Rightarrow> World \<Rightarrow> error option \<times> World" where
  "UpdateVirtualService prev v w =
     (case call (UpdateVirtualServiceCall prev v) w of
        (Some err, w1) \<Rightarrow> (Some err, w1)
      | (None, w1) \<Rightarrow>
          (None, w1\<lparr>virtualServices := (virtualServices w1)(VirtualServiceName v \<mapsto> v)\<rparr>))"

text \<open>
  Modelled from the spec: the gateway's delete of a routing-rule object
  (\<open>config.K8s.DeleteVirtualService\<close>).
\<close>

definition DeleteVirtualService :: "string \<Rightarrow> World \<Rightarrow> error option \<times> World" where
  "DeleteVirtualService name w =
     (case call (DeleteVirtualServiceCall name) w of
        (Some err, w1) \<Rightarrow> (Some err, w1)
      | (None, w1) \<Rightarrow> (None, w1\<lparr>virtualServices := (virtualServices w1)(name := None)\<rparr>))"

text \<open>
  Modelled from the spec: the gateway's pod listing by label
  (\<open>config.K8s.ListPodsByLabel\<close>).
\<close>

definition ListPodsByLabel :: "string \<Rightarrow> string \<Rightarrow> World \<Rightarrow> (error + Pod list) \<times> World" where
  "ListPodsByLabel k v w =
     (case call (ListPodsByLabelCall k v) w of
        (Some err, w1) \<Rightarrow> (Inl err, w1)
      | (None, w1) \<Rightarrow> (Inr (pods w1 k v), w1))"

text \<open>
  Object storage and the persisted spec (\<open>config.AWS\<close>, \<open>cloud.DownloadAPISpec\<close>) are
  declared outside api.go.  A spec is stored under its API name and identity and read
  back by the same pair.
\<close>

text \<open>
  Modelled from the spec: object storage's put of a materialized spec
  (\<open>config.AWS.UploadMsgpackToS3\<close>); the spec is stored under its API name and
  identity.
\<close>

definition UploadMsgpackToS3 :: "API \<Rightarrow> string \<Rightarrow> string \<Rightarrow> World \<Rightarrow> error option \<times> World" where
  "UploadMsgpackToS3 api bucket key w =
     (case call (UploadMsgpackToS3Call api bucket key) w of
        (Some err, w1) \<Rightarrow> (Some err, w1)
      | (None, w1) \<Rightarrow>
          (None, w1\<lparr>storedSpecs := (storedSpecs w1)(APIName api := (storedSpecs w1 (APIName api))(ID api := api))\<rparr>))"

text \<open>
  Modelled from the spec: object storage's recursive delete
  (\<open>config.AWS.DeleteS3Dir\<close>).
\<close>

definition DeleteS3Dir :: "string \<Rightarrow> string \<Rightarrow> bool \<Rightarrow> World \<Rightarrow> error option \<times> World" where
  "DeleteS3Dir bucket pref recursive w = call (DeleteS3DirCall bucket pref recursive) w"

text \<open>
  Modelled from the spec: the download of the persisted spec by API name and identity
  (\<open>cloud.DownloadAPISpec\<close>).
\<close>

definition DownloadAPISpec :: "string \<Rightarrow> string \<Rightarrow> World \<Rightarrow> (error + API) \<times> World" where
  "DownloadAPISpec apiName apiID w =
     (case call (DownloadAPISpecCall apiName apiID) w of
        (Some err, w1) \<Rightarrow> (Inl err, w1)
      | (None, w1) \<Rightarrow> (Inr (storedSpecs w1 apiName apiID), w1))"

text \<open>
  The dashboard registration service, the status listing and the error sink are declared
  outside api.go.
\<close>

text \<open>
  Modelled from the spec: the dashboard service's registration, declared in another file
  of the package.
\<close>

definition addAPIToDashboard :: "string \<Rightarrow> string \<Rightarrow> World \<Rightarrow> error option \<times> World" where
  "addAPIToDashboard cluster apiName w = call (AddAPIToDashboardCall cluster apiName) w"

text \<open>
  Modelled from the spec: the dashboard service's deregistration, declared in another file
  of the package.
\<close>

definition removeAPIFromDashboard ::
  "string list \<Rightarrow> string \<Rightarrow> string \<Rightarrow> World \<Rightarrow> error option \<times> World" where
  "removeAPIFromDashboard allAPINames cluster apiName w =
     call (RemoveAPIFromDashboardCall allAPINames cluster apiName) w"

text \<open>
  Modelled from the spec: the listing of all known APIs, declared in another file of the
  package.
\<close>

definition GetAllStatuses :: "World \<Rightarrow> (error + Status list) \<times> World" where
  "GetAllStatuses w =
     (case call GetAllStatusesCall w of
        (Some err, w1) \<Rightarrow> (Inl err, w1)
      | (None, w1) \<Rightarrow> (Inr (statuses w1), w1))"

text \<open>
  Modelled from the spec: the error sink (\<open>errors.PrintError\<close>); it accepts a
  report and never fails its caller.
\<close>

definition PrintError :: "error \<Rightarrow> string list \<Rightarrow> World \<Rightarrow> World" where
  "PrintError err strs w = w\<lparr>trace := trace w @ [PrintErrorCall err strs]\<rparr>"

text \<open>
  Modelled from the spec: \<open>k8s.RandomName\<close> generates a fresh name; here, the next name
  of the world's supply.
\<close>

definition RandomName :: "World \<Rightarrow> string \<times> World" where
  "RandomName w = (randomNames w (randomUsed w), w\<lparr>randomUsed := Suc (randomUsed w)\<rparr>)"

text \<open>
  Recurring tasks.  \<open>running w h = Some n\<close> says that the task of handle \<open>h\<close>, started for
  the API named \<open>n\<close>, is still ticking.
\<close>

text \<open>
  Modelled from the spec: \<open>cron.Run\<close> of pkg/lib/cron starts a recurring task
  and returns its handle; the task ticks until the handle is cancelled.
\<close>

definition CronRun :: "string \<Rightarrow> Autoscaler \<Rightarrow> World \<Rightarrow> nat \<times> World" where
  "CronRun apiName autoscaler w =
     (cronsStarted w,
      w\<lparr>running := (running w)(cronsStarted w \<mapsto> apiName),
        cronsStarted := Suc (cronsStarted w),
        trace := trace w @ [CronRunCall (cronsStarted w) apiName autoscaler]\<rparr>)"

text \<open>
  Modelled from the spec: \<open>Cron.Cancel\<close> of pkg/lib/cron stops the task of the
  handle; cancelling a stopped task changes nothing.
\<close>

definition CronCancel :: "nat \<Rightarrow> World \<Rightarrow> World" where
  "CronCancel h w = w\<lparr>running := (running w)(h := None), trace := trace w @ [CronCancelCall h]\<rparr>"

text \<open>
  The fan-out of pkg/lib/parallel.  The actions composed in api.go touch different
  tables, so one schedule, launch order, stands for all interleavings; which error is
  first when several actions fail is the schedule's choice.
\<close>

text \<open>
  Modelled from the spec: the first error of a list of results, as
  \<open>parallel.RunFirstErr\<close> reports it.
\<close>

fun FirstError :: "error option list \<Rightarrow> error option" where
  "FirstError [] = None"
| "FirstError (Some err # errs) = Some err"
| "FirstError (None # errs) = FirstError errs"

text \<open>
  Modelled from the spec: every action of a fan-out runs to completion; none is cancelled
  when a sibling fails.
\<close>

fun RunAll :: "(World \<Rightarrow> error option \<times> World) list \<Rightarrow> World \<Rightarrow> error option list \<times> World" where
  "RunAll [] w = ([], w)"
| "RunAll (fn # fns) w =
     (case fn w of (err, w1) \<Rightarrow> (case RunAll fns w1 of (errs, w2) \<Rightarrow> (err # errs, w2)))"

text \<open>
  Modelled from the spec: \<open>parallel.RunFirstErr\<close> of pkg/lib/parallel runs all
  actions and returns the first error observed, discarding the others.
\<close>

definition RunFirstErr :: "(World \<Rightarrow> error option \<times> World) list \<Rightarrow> World \<Rightarrow> error option \<times> World" where
  "RunFirstErr fns w = (case RunAll fns w of (errs, w1) \<Rightarrow> (FirstError errs, w1))"

text \<open>\<open>go f()\<close>: the goroutine is recorded as started; its result goes nowhere.\<close>

definition go :: "Task \<Rightarrow> World \<Rightarrow> World" where
  "go t w = w\<lparr>spawned := spawned w @ [t]\<rparr>"

section \<open>The functions of api.go\<close>

subsection \<open>Autoscaler task registry\<close>

definition UpdateAutoscalerCron :: "Env \<Rightarrow> Deployment \<Rightarrow> World \<Rightarrow> error option \<times> World" where
  "UpdateAutoscalerCron env deployment w =
     (let apiName = lookup (Labels deployment) ''apiName'';
          w1 = (case autoscalerCrons w apiName of
                  Some prevAutoscalerCron \<Rightarrow> CronCancel prevAutoscalerCron w
                | None \<Rightarrow> w)
      in case AutoscaleFn env deployment of
           Inl err \<Rightarrow> (Some err, w1)
         | Inr autoscaler \<Rightarrow>
             (case CronRun apiName autoscaler w1 of
                (h, w2) \<Rightarrow> (None, w2\<lparr>autoscalerCrons := (autoscalerCrons w2)(apiName \<mapsto> h)\<rparr>)))"

text \<open>The first action of \<open>deleteK8sResources\<close>: cancel and forget the task, delete the workload.\<close>

definition cancelAndDeleteDeployment :: "Env \<Rightarrow> string \<Rightarrow> World \<Rightarrow> error option \<times> World" where
  "cancelAndDeleteDeployment env apiName w =
     (let w1 = (case autoscalerCrons w apiName of
                  Some autoscalerCron \<Rightarrow>
                    (let w0 = CronCancel autoscalerCron w
                     in w0\<lparr>autoscalerCrons := (autoscalerCrons w0)(apiName := None)\<rparr>)
                | None \<Rightarrow> w)
      in DeleteDeployment (K8sName env apiName) w1)"

definition deleteK8sResources :: "Env \<Rightarrow> string \<Rightarrow> World \<Rightarrow> error option \<times> World" where
  "deleteK8sResources env apiName =
     RunFirstErr
       [cancelAndDeleteDeployment env apiName,
        DeleteService (K8sName env apiName),
        DeleteVirtualService (K8sName env apiName)]"

definition deleteS3Resources :: "Env \<Rightarrow> string \<Rightarrow> World \<Rightarrow> error option \<times> World" where
  "deleteS3Resources env apiName =
     RunFirstErr
       [\<lambda>w. (let pref = filepathJoin env ''apis'' apiName
             in DeleteS3Dir (Bucket env) pref True w)]"

text \<open>What a goroutine does once the scheduler runs it; nobody reads its result.\<close>

fun runTask :: "Env \<Rightarrow> Task \<Rightarrow> World \<Rightarrow> World" where
  "runTask env (GoDeleteK8sResources apiName) w = snd (deleteK8sResources env apiName w)"

subsection \<open>Fetching and applying the three resources\<close>

definition getK8sResources ::
  "Env \<Rightarrow> string \<Rightarrow> World \<Rightarrow>
     (Deployment option \<times> Service option \<times> VirtualService option \<times> error option) \<times> World" where
  "getK8sResources env apiName w =
     (case GetDeployment (K8sName env apiName) w of (r1, w1) \<Rightarrow>
      case GetService (K8sName env apiName) w1 of (r2, w2) \<Rightarrow>
      case GetVirtualService (K8sName env apiName) w2 of (r3, w3) \<Rightarrow>
        ((case r1 of Inl _ \<Rightarrow> None | Inr deployment \<Rightarrow> deployment,
          case r2 of Inl _ \<Rightarrow> None | Inr service \<Rightarrow> service,
          case r3 of Inl _ \<Rightarrow> None | Inr virtualService \<Rightarrow> virtualService,
          FirstError
            [case r1 of Inl err \<Rightarrow> Some err | Inr _ \<Rightarrow> None,
             case r2 of Inl err \<Rightarrow> Some err | Inr _ \<Rightarrow> None,
             case r3 of Inl err \<Rightarrow> Some err | Inr _ \<Rightarrow> None]),
         w3))"

definition applyK8sDeployment ::
  "Env \<Rightarrow> API \<Rightarrow> Deployment option \<Rightarrow> World \<Rightarrow> error option \<times> World" where
  "applyK8sDeployment env api prevDeployment w =
     (let newDeployment = DeploymentSpec env api prevDeployment
      in case (case prevDeployment of
                 None \<Rightarrow> CreateDeployment newDeployment w
               | Some prev \<Rightarrow>
                   if ReadyReplicas prev = 0
                   then (case DeleteDeployment (K8sName env (APIName api)) w of
                           (_, w0) \<Rightarrow> CreateDeployment newDeployment w0)
                   else UpdateDeployment newDeployment w)
         of (Some err, w1) \<Rightarrow> (Some err, w1)
          | (None, w1) \<Rightarrow> UpdateAutoscalerCron env newDeployment w1)"

definition applyK8sService :: "Env \<Rightarrow> API \<Rightarrow> Service option \<Rightarrow> World \<Rightarrow> error option \<times> World" where
  "applyK8sService env api prevService w =
     (let newService = serviceSpec env api
      in case prevService of
           None \<Rightarrow> CreateService newService w
         | Some prev \<Rightarrow> UpdateService prev newService w)"

definition applyK8sVirtualService ::
  "Env \<Rightarrow> API \<Rightarrow> VirtualService option \<Rightarrow> World \<Rightarrow> error option \<times> World" where
  "applyK8sVirtualService env api prevVirtualService w =
     (let newVirtualService = virtualServiceSpec env api
      in case prevVirtualService of
           None \<Rightarrow> CreateVirtualService newVirtualService w
         | Some prev \<Rightarrow> UpdateVirtualService prev newVirtualService w)"

definition applyK8sResources ::
  "Env \<Rightarrow> API \<Rightarrow> Deployment option \<Rightarrow> Service option \<Rightarrow> VirtualService option \<Rightarrow>
     World \<Rightarrow> error option \<times> World" where
  "applyK8sResources env api prevDeployment prevService prevVirtualService =
     RunFirstErr
       [applyK8sDeployment env api prevDeployment,
        applyK8sService env api prevService,
        applyK8sVirtualService env api prevVirtualService]"

subsection \<open>Rollout status\<close>

definition isAPIUpdating :: "Env \<Rightarrow> Deployment \<Rightarrow> World \<Rightarrow> (error + bool) \<times> World" where
  "isAPIUpdating env deployment w =
     (case ListPodsByLabel ''apiName'' (lookup (Labels deployment) ''apiName'') w of
        (Inl err, w1) \<Rightarrow> (Inl err, w1)
      | (Inr podList, w1) \<Rightarrow>
          (let replicaCounts = getReplicaCounts env deployment podList
           in case AutoscalingFromAnnotations env deployment of
                Inl err \<Rightarrow> (Inl err, w1)
              | Inr autoscalingSpec \<Rightarrow>
                  if Ready (Updated replicaCounts) <s MinReplicas autoscalingSpec \<and>
                     TotalFailed (Updated replicaCounts) = 0
                  then (Inr True, w1)
                  else (Inr False, w1)))"

subsection \<open>Entry operations\<close>

text \<open>Lines 49 to 52 of \<open>UpdateAPI\<close>: the deployment identity given to the materializer.\<close>

definition chooseDeploymentID :: "Deployment option \<Rightarrow> string \<Rightarrow> string" where
  "chooseDeploymentID prevDeployment randomName =
     (case prevDeployment of
        None \<Rightarrow> randomName
      | Some prev \<Rightarrow>
          if lookup (Labels prev) ''deploymentID'' \<noteq> []
          then lookup (Labels prev) ''deploymentID''
          else randomName)"

definition UpdateAPI ::
  "Env \<Rightarrow> UserAPI \<Rightarrow> string \<Rightarrow> bool \<Rightarrow> World \<Rightarrow> (error + API \<times> string) \<times> World" where
  "UpdateAPI env apiConfig projectID force w =
     (case getK8sResources env (ConfigName apiConfig) w of
        ((prevDeployment, prevService, prevVirtualService, Some err), w1) \<Rightarrow> (Inl err, w1)
      | ((prevDeployment, prevService, prevVirtualService, None), w1) \<Rightarrow>
     (case RandomName w1 of (randomName, w2) \<Rightarrow>
     (let deploymentID = chooseDeploymentID prevDeployment randomName;
          api = GetAPISpec env apiConfig projectID deploymentID
      in case prevDeployment of
           None \<Rightarrow>
             (case UploadMsgpackToS3 api (Bucket env) (Key api) w2 of
                (Some err, w3) \<Rightarrow> (Inl (Wrap err ''upload api spec''), w3)
              | (None, w3) \<Rightarrow>
             (case applyK8sResources env api prevDeployment prevService prevVirtualService w3 of
                (Some err, w4) \<Rightarrow> (Inl err, go (GoDeleteK8sResources (APIName api)) w4)
              | (None, w4) \<Rightarrow>
             (case addAPIToDashboard (ClusterName env) (APIName api) w4 of
                (Some err, w5) \<Rightarrow> (Inr (api, ''creating '' @ APIName api), PrintError err [] w5)
              | (None, w5) \<Rightarrow> (Inr (api, ''creating '' @ APIName api), w5))))
         | Some prev \<Rightarrow>
             if \<not> areAPIsEqual env prev (DeploymentSpec env api prevDeployment)
             then
               (case isAPIUpdating env prev w2 of
                  (Inl err, w3) \<Rightarrow> (Inl err, w3)
                | (Inr isUpdating, w3) \<Rightarrow>
                    if isUpdating \<and> \<not> force then (Inl (ErrorAPIUpdating (APIName api)), w3)
                    else
               (case UploadMsgpackToS3 api (Bucket env) (Key api) w3 of
                  (Some err, w4) \<Rightarrow> (Inl (Wrap err ''upload api spec''), w4)
                | (None, w4) \<Rightarrow>
               (case applyK8sResources env api prevDeployment prevService prevVirtualService w4 of
                  (Some err, w5) \<Rightarrow> (Inl err, w5)
                | (None, w5) \<Rightarrow> (Inr (api, ''updating '' @ APIName api), w5))))
             else
               (case isAPIUpdating env prev w2 of
                  (Inl err, w3) \<Rightarrow> (Inl err, w3)
                | (Inr isUpdating, w3) \<Rightarrow>
                    if isUpdating then (Inr (api, APIName api @ '' is already updating''), w3)
                    else (Inr (api, APIName api @ '' is up to date''), w3)))))"

definition RefreshAPI :: "Env \<Rightarrow> string \<Rightarrow> bool \<Rightarrow> World \<Rightarrow> (error + string) \<times> World" where
  "RefreshAPI env apiName force w =
     (case GetDeployment (K8sName env apiName) w of
        (Inl err, w1) \<Rightarrow> (Inl err, w1)
      | (Inr None, w1) \<Rightarrow> (Inl (ErrorAPINotDeployed apiName), w1)
      | (Inr (Some prevDeployment), w1) \<Rightarrow>
     (case isAPIUpdating env prevDeployment w1 of
        (Inl err, w2) \<Rightarrow> (Inl err, w2)
      | (Inr isUpdating, w2) \<Rightarrow>
          if isUpdating \<and> \<not> force then (Inl (ErrorAPIUpdating apiName), w2)
          else
     (case GetLabel env prevDeployment ''apiID'' of
        Inl err \<Rightarrow> (Inl err, w2)
      | Inr apiID \<Rightarrow>
     (case DownloadAPISpec apiName apiID w2 of
        (Inl err, w3) \<Rightarrow> (Inl err, w3)
      | (Inr api0, w3) \<Rightarrow>
     (case RandomName w3 of (randomName, w4) \<Rightarrow>
     (let api = GetAPISpec env (UserConfig api0) (ProjectID api0) randomName
      in case UploadMsgpackToS3 api (Bucket env) (Key api) w4 of
           (Some err, w5) \<Rightarrow> (Inl (Wrap err ''upload api spec''), w5)
         | (None, w5) \<Rightarrow>
        (case applyK8sDeployment env api (Some prevDeployment) w5 of
           (Some err, w6) \<Rightarrow> (Inl err, w6)
         | (None, w6) \<Rightarrow> (Inr (''updating '' @ APIName api), w6))))))))"

text \<open>The second and third actions of \<open>DeleteAPI\<close>.\<close>

definition deleteCache :: "Env \<Rightarrow> string \<Rightarrow> bool \<Rightarrow> World \<Rightarrow> error option \<times> World" where
  "deleteCache env apiName keepCache w =
     (if keepCache then (None, w)
      else (case deleteS3Resources env apiName w of (_, w1) \<Rightarrow> (None, w1)))"

definition deleteFromDashboard :: "Env \<Rightarrow> string \<Rightarrow> World \<Rightarrow> error option \<times> World" where
  "deleteFromDashboard env apiName w =
     (case GetAllStatuses w of
        (Inl err, w1) \<Rightarrow> (None, PrintError err [''failed to get API Statuses''] w1)
      | (Inr sts, w1) \<Rightarrow>
          (let allAPINames = map StatusAPIName sts
           in case removeAPIFromDashboard allAPINames (ClusterName env) apiName w1 of
                (Some err, w2) \<Rightarrow> (None, PrintError err [] w2)
              | (None, w2) \<Rightarrow> (None, w2)))"

definition DeleteAPI :: "Env \<Rightarrow> string \<Rightarrow> bool \<Rightarrow> World \<Rightarrow> error option \<times> World" where
  "DeleteAPI env apiName keepCache w =
     (case RunFirstErr
             [deleteK8sResources env apiName,
              deleteCache env apiName keepCache,
              deleteFromDashboard env apiName] w of
        (Some err, w1) \<Rightarrow> (Some err, w1)
      | (None, w1) \<Rightarrow> (None, w1))"

definition IsAPIDeployed :: "Env \<Rightarrow> string \<Rightarrow> World \<Rightarrow> (error + bool) \<times> World" where
  "IsAPIDeployed env apiName w =
     (case GetVirtualService (K8sName env apiName) w of
        (Inl err, w1) \<Rightarrow> (Inl err, w1)
      | (Inr virtualService, w1) \<Rightarrow> (Inr (virtualService \<noteq> None), w1))"

section \<open>Notions of the specification\<close>

text \<open>
  The create-or-update policy for the workload object in the words of the spec: absent,
  create; present with zero ready replicas, delete then create; otherwise update in
  place.  The list holds the gateway calls the policy asks for, in order.
\<close>

definition workloadWrites :: "Env \<Rightarrow> API \<Rightarrow> Deployment option \<Rightarrow> Call list" where
  "workloadWrites env api prevDeployment =
     (case prevDeployment of
        None \<Rightarrow> [CreateDeploymentCall (DeploymentSpec env api prevDeployment)]
      | Some prev \<Rightarrow>
          if ReadyReplicas prev = 0
          then [DeleteDeploymentCall (K8sName env (APIName api)),
                CreateDeploymentCall (DeploymentSpec env api prevDeployment)]
          else [UpdateDeploymentCall (DeploymentSpec env api prevDeployment)])"

text \<open>
  Sequences of registry operations.  \<open>RefreshRegistration\<close> is \<open>UpdateAutoscalerCron\<close>;
  \<open>Cancel\<close> is the workload deletion path \<open>deleteK8sResources\<close>, whose first action cancels
  and forgets the task.
\<close>

datatype RegistryOp = RefreshRegistration Deployment | Cancel string

fun registryStep :: "Env \<Rightarrow> RegistryOp \<Rightarrow> World \<Rightarrow> World" where
  "registryStep env (RefreshRegistration deployment) w = snd (UpdateAutoscalerCron env deployment w)"
| "registryStep env (Cancel apiName) w = snd (deleteK8sResources env apiName w)"

definition registryRun :: "Env \<Rightarrow> RegistryOp list \<Rightarrow> World \<Rightarrow> World" where
  "registryRun env ops w = fold (registryStep env) ops w"

text \<open>
  Every running task is the one registered under its API name, and every registered
  handle was handed out by \<open>cron.Run\<close>.
\<close>

definition registryInv :: "World \<Rightarrow> bool" where
  "registryInv w =
     ((\<forall>h n. running w h = Some n \<longrightarrow> autoscalerCrons w n = Some h) \<and>
      (\<forall>h n. autoscalerCrons w n = Some h \<longrightarrow> h < cronsStarted w))"

text \<open>The calls that enter the object-storage deletion path.\<close>

fun isDeleteS3Dir :: "Call \<Rightarrow> bool" where
  "isDeleteS3Dir (DeleteS3DirCall bucket pref recursive) = True"
| "isDeleteS3Dir _ = False"

text \<open>The calls that persist a materialized spec.\<close>

fun isUpload :: "Call \<Rightarrow> bool" where
  "isUpload (UploadMsgpackToS3Call api bucket key) = True"
| "isUpload _ = False"

section \<open>A concrete environment and concrete objects\<close>

text \<open>
  The theorems below hold for every environment and every world.  The objects of this
  section are one environment and a few worlds on which the functions are run.  In this
  environment \<open>Pod 0\<close> is a ready pod of the current revision and \<open>Pod 1\<close> a failed one.
\<close>

definition exampleEnv :: Env where
  "exampleEnv =
     \<lparr>K8sName = (\<lambda>apiName. ''api-'' @ apiName),
      DeploymentSpec = (\<lambda>api prev.
        \<lparr>Name = ''api-'' @ APIName api,
         Labels = [(''apiName'', APIName api), (''apiID'', ID api),
                   (''deploymentID'', DeploymentID api)],
         Annotations = [(''autoscaling.cortex.dev/min-replicas'', ''3'')],
         Strategy = DeploymentStrategy 0,
         TemplateSpec = PodSpec (ConfigBody (UserConfig api)),
         ReadyReplicas = 0\<rparr>),
      serviceSpec = (\<lambda>api. \<lparr>ServiceName = ''api-'' @ APIName api, ServiceBody = 0\<rparr>),
      virtualServiceSpec =
        (\<lambda>api. \<lparr>VirtualServiceName = ''api-'' @ APIName api, VirtualServiceBody = 0\<rparr>),
      GetAPISpec = (\<lambda>apiConfig projectID deploymentID.
        \<lparr>UserConfig = apiConfig, APIName = ConfigName apiConfig, ID = ''id1'',
         DeploymentID = deploymentID, Key = ''apis/'' @ ConfigName apiConfig,
         ProjectID = projectID\<rparr>),
      PodComputesEqual = (=),
      DeploymentStrategiesMatch = (=),
      AutoscalingFromAnnotations = (\<lambda>d.
        case map_of (Annotations d) ''autoscaling.cortex.dev/min-replicas'' of
          None \<Rightarrow> Inl (Err ''min_replicas'')
        | Some v \<Rightarrow>
            if v = ''3'' then Inr \<lparr>MinReplicas = 3\<rparr>
            else if v = ''1'' then Inr \<lparr>MinReplicas = 1\<rparr>
            else Inl (Err ''min_replicas'')),
      getReplicaCounts = (\<lambda>d podList.
        \<lparr>Updated = \<lparr>Ready = of_nat (length (filter (\<lambda>p. p = Pod 0) podList)),
                    Failed = of_nat (length (filter (\<lambda>p. p = Pod 1) podList))\<rparr>,
         Stale = \<lparr>Ready = 0, Failed = 0\<rparr>\<rparr>),
      AutoscaleFn = (\<lambda>d.
        case map_of (Annotations d) ''autoscaling.cortex.dev/min-replicas'' of
          None \<Rightarrow> Inl (Err ''min_replicas'')
        | Some v \<Rightarrow> Inr (Autoscaler (length v))),
      GetLabel = (\<lambda>d k.
        case map_of (Labels d) k of None \<Rightarrow> Inl (Err ''label not found'') | Some v \<Rightarrow> Inr v),
      filepathJoin = (\<lambda>a b. a @ ''/'' @ b),
      Bucket = ''bucket'',
      ClusterName = ''cluster''\<rparr>"

definition exampleDeployment :: Deployment where
  "exampleDeployment =
     \<lparr>Name = ''api-a'',
      Labels = [(''apiName'', ''a''), (''apiID'', ''id1''), (''deploymentID'', ''dep1'')],
      Annotations = [(''autoscaling.cortex.dev/min-replicas'', ''3'')],
      Strategy = DeploymentStrategy 0,
      TemplateSpec = PodSpec 0,
      ReadyReplicas = 1\<rparr>"

definition annotated :: "string \<Rightarrow> string \<Rightarrow> Deployment" where
  "annotated key val =
     exampleDeployment\<lparr>Annotations := Annotations exampleDeployment @ [(key, val)]\<rparr>"


definition exampleConfig :: UserAPI where
  "exampleConfig = \<lparr>ConfigName = ''a'', ConfigBody = 0\<rparr>"

definition noFaults :: "Call \<Rightarrow> nat \<Rightarrow> error option" where
  "noFaults = (\<lambda>c n. None)"

text \<open>Nothing is deployed.\<close>

definition emptyWorld :: World where
  "emptyWorld =
     \<lparr>deployments = Map.empty, services = Map.empty, virtualServices = Map.empty,
      pods = (\<lambda>k v. []),
      storedSpecs = (\<lambda>apiName apiID.
        \<lparr>UserConfig = \<lparr>ConfigName = apiName, ConfigBody = 0\<rparr>, APIName = apiName, ID = apiID,
         DeploymentID = ''dep1'', Key = ''apis/'' @ apiName, ProjectID = ''p''\<rparr>),
      statuses = [],
      randomNames = (\<lambda>n. replicate (Suc n) CHR ''r''),
      randomUsed = 0,
      autoscalerCrons = Map.empty, running = Map.empty, cronsStarted = 0,
      spawned = [], faults = noFaults, trace = []\<rparr>"

text \<open>The API \<open>a\<close> is deployed with two ready pods, and its autoscaler task 0 is ticking.\<close>

definition exampleWorld :: World where
  "exampleWorld =
     emptyWorld
       \<lparr>deployments := [''api-a'' \<mapsto> exampleDeployment],
        services := [''api-a'' \<mapsto> \<lparr>ServiceName = ''api-a'', ServiceBody = 0\<rparr>],
        virtualServices :=
          [''api-a'' \<mapsto> \<lparr>VirtualServiceName = ''api-a'', VirtualServiceBody = 0\<rparr>],
        pods := (\<lambda>k v. if k = ''apiName'' \<and> v = ''a'' then [Pod 0, Pod 0] else []),
        statuses := [\<lparr>StatusAPIName = ''a''\<rparr>],
        autoscalerCrons := [''a'' \<mapsto> 0],
        running := [0 \<mapsto> ''a''],
        cronsStarted := 1\<rparr>"

definition exampleAPI :: API where
  "exampleAPI = GetAPISpec exampleEnv exampleConfig ''p'' ''dep1''"

definition neverReady :: Deployment where
  "neverReady = exampleDeployment\<lparr>ReadyReplicas := 0\<rparr>"

definition failingCreate :: "Call \<Rightarrow> nat \<Rightarrow> error option" where
  "failingCreate = (\<lambda>c n. case c of CreateDeploymentCall d \<Rightarrow> Some (Err ''conflict'') | _ \<Rightarrow> None)"

text \<open>
  Object storage and the dashboard fail on every call; the gateway fails to delete the
  endpoint object of \<open>b\<close>.
\<close>

definition failingStorage :: "Call \<Rightarrow> nat \<Rightarrow> error option" where
  "failingStorage = (\<lambda>c n. case c of
       DeleteS3DirCall bucket pref recursive \<Rightarrow> Some (Err ''access denied'')
     | RemoveAPIFromDashboardCall names cluster apiName \<Rightarrow> Some (Err ''dashboard'')
     | DeleteServiceCall name \<Rightarrow> (if name = ''api-b'' then Some (Err ''gateway'') else None)
     | _ \<Rightarrow> None)"

text \<open>The workload of \<open>a\<close> exists but carries no \<open>deploymentID\<close> label.\<close>

definition unlabelled :: Deployment where
  "unlabelled = exampleDeployment\<lparr>Labels := [(''apiName'', ''a''), (''apiID'', ''id1'')]\<rparr>"

definition unlabelledWorld :: World where
  "unlabelledWorld = exampleWorld\<lparr>deployments := [''api-a'' \<mapsto> unlabelled]\<rparr>"

text \<open>The gateway refuses every write of an endpoint object; a changed configuration.\<close>

definition failingService :: "Call \<Rightarrow> nat \<Rightarrow> error option" where
  "failingService = (\<lambda>c n. case c of
       CreateServiceCall s \<Rightarrow> Some (Err ''endpoint'')
     | UpdateServiceCall prev s \<Rightarrow> Some (Err ''endpoint'')
     | _ \<Rightarrow> None)"

definition changedConfig :: UserAPI where
  "changedConfig = exampleConfig\<lparr>ConfigBody := 1\<rparr>"

section \<open>Unfolding rules\<close>

lemmas gw_defs = call_def GetDeployment_def CreateDeployment_def UpdateDeployment_def DeleteDeployment_def
  GetService_def CreateService_def UpdateService_def DeleteService_def
  GetVirtualService_def CreateVirtualService_def UpdateVirtualService_def DeleteVirtualService_def
  ListPodsByLabel_def UploadMsgpackToS3_def DeleteS3Dir_def DownloadAPISpec_def addAPIToDashboard_def
  removeAPIFromDashboard_def GetAllStatuses_def PrintError_def RandomName_def CronRun_def CronCancel_def
  RunFirstErr_def go_def

lemmas api_defs = UpdateAutoscalerCron_def cancelAndDeleteDeployment_def deleteK8sResources_def
  deleteS3Resources_def getK8sResources_def applyK8sDeployment_def applyK8sService_def
  applyK8sVirtualService_def applyK8sResources_def isAPIUpdating_def chooseDeploymentID_def
  UpdateAPI_def RefreshAPI_def deleteCache_def deleteFromDashboard_def DeleteAPI_def IsAPIDeployed_def
  areAPIsEqual_def doCortexAnnotationsMatch_def extractCortexAnnotations_def
      keepCortexAnnotation_def StrMapsEqual_def lookup_def TotalFailed_def

lemmas ex_defs = exampleEnv_def exampleWorld_def emptyWorld_def exampleDeployment_def exampleConfig_def noFaults_def

text \<open>A fan-out of three actions, written out.\<close>

lemma RunFirstErr_three:
  "RunFirstErr [f, g, h] w =
     (FirstError [fst (f w), fst (g (snd (f w))), fst (h (snd (g (snd (f w)))))],
      snd (h (snd (g (snd (f w))))))"
  by (simp add: RunFirstErr_def split: prod.splits)

text \<open>
  What the steps of \<open>UpdateAPI\<close> leave alone: the supply of random names, the goroutines
  started, and the uploads on record.
\<close>

lemma getK8sResources_frame:
  "randomNames (snd (getK8sResources env apiName w)) = randomNames w"
  "randomUsed (snd (getK8sResources env apiName w)) = randomUsed w"
  "spawned (snd (getK8sResources env apiName w)) = spawned w"
  "filter isUpload (trace (snd (getK8sResources env apiName w))) = filter isUpload (trace w)"
  by (simp_all add: getK8sResources_def GetDeployment_def GetService_def GetVirtualService_def
      call_def split: prod.splits option.splits)

lemma getK8sResources_deployment:
  assumes "getK8sResources env apiName w = ((prevDeployment, prevService, prevVirtualService, None), w1)"
  shows "prevDeployment = deployments w (K8sName env apiName)"
  using assms
  by (auto simp: getK8sResources_def GetDeployment_def GetService_def GetVirtualService_def
      call_def split: prod.splits option.splits)

lemma isAPIUpdating_frame:
  "spawned (snd (isAPIUpdating env deployment w)) = spawned w"
  "filter isUpload (trace (snd (isAPIUpdating env deployment w))) = filter isUpload (trace w)"
  by (simp_all add: isAPIUpdating_def ListPodsByLabel_def call_def Let_def
      split: prod.splits option.splits sum.splits)

lemma UploadMsgpackToS3_frame:
  "spawned (snd (UploadMsgpackToS3 api bucket key w)) = spawned w"
  "filter isUpload (trace (snd (UploadMsgpackToS3 api bucket key w))) =
     filter isUpload (trace w) @ [UploadMsgpackToS3Call api bucket key]"
  by (simp_all add: UploadMsgpackToS3_def call_def split: prod.splits option.splits)

lemma UpdateAutoscalerCron_frame:
  "spawned (snd (UpdateAutoscalerCron env deployment w)) = spawned w"
  "filter isUpload (trace (snd (UpdateAutoscalerCron env deployment w))) = filter isUpload (trace w)"
  by (simp_all add: UpdateAutoscalerCron_def CronRun_def CronCancel_def Let_def
      split: prod.splits option.splits sum.splits)

lemma applyK8sDeployment_frame:
  "spawned (snd (applyK8sDeployment env api prevDeployment w)) = spawned w"
  "filter isUpload (trace (snd (applyK8sDeployment env api prevDeployment w))) =
     filter isUpload (trace w)"
  by (simp_all add: applyK8sDeployment_def UpdateAutoscalerCron_frame CreateDeployment_def
      UpdateDeployment_def DeleteDeployment_def call_def Let_def
      split: prod.splits option.splits)

lemma applyK8sService_frame:
  "spawned (snd (applyK8sService env api prevService w)) = spawned w"
  "filter isUpload (trace (snd (applyK8sService env api prevService w))) = filter isUpload (trace w)"
  by (simp_all add: applyK8sService_def CreateService_def UpdateService_def call_def Let_def
      split: prod.splits option.splits)

lemma applyK8sVirtualService_frame:
  "spawned (snd (applyK8sVirtualService env api prevVirtualService w)) = spawned w"
  "filter isUpload (trace (snd (applyK8sVirtualService env api prevVirtualService w))) =
     filter isUpload (trace w)"
  by (simp_all add: applyK8sVirtualService_def CreateVirtualService_def UpdateVirtualService_def
      call_def Let_def split: prod.splits option.splits)

lemma applyK8sResources_frame:
  "spawned (snd (applyK8sResources env api prevDeployment prevService prevVirtualService w))
     = spawned w"
  "filter isUpload
     (trace (snd (applyK8sResources env api prevDeployment prevService prevVirtualService w)))
     = filter isUpload (trace w)"
  by (simp_all add: applyK8sResources_def RunFirstErr_three applyK8sDeployment_frame
      applyK8sService_frame applyK8sVirtualService_frame)

lemma addAPIToDashboard_frame:
  "spawned (snd (addAPIToDashboard cluster apiName w)) = spawned w"
  "filter isUpload (trace (snd (addAPIToDashboard cluster apiName w))) = filter isUpload (trace w)"
  by (simp_all add: addAPIToDashboard_def call_def)

lemma RandomName_frame:
  "spawned (snd (RandomName w)) = spawned w"
  "fst (RandomName w) = randomNames w (randomUsed w)"
  by (simp_all add: RandomName_def)

lemmas UpdateAPI_frames =
  getK8sResources_frame isAPIUpdating_frame UploadMsgpackToS3_frame applyK8sResources_frame
  addAPIToDashboard_frame

section \<open>Autoscaler task registry\<close>

text \<open>At most one task runs per API name.\<close>

lemma registryInv_one_live:
  assumes "registryInv w" and "running w h1 = Some n" and "running w h2 = Some n"
  shows "h1 = h2"
proof -
  from assms(1) have reg: "\<And>h. running w h = Some n \<Longrightarrow> autoscalerCrons w n = Some h"
    unfolding registryInv_def by blast
  from reg[OF assms(2)] reg[OF assms(3)] show ?thesis by simp
qed

text \<open>Both registry operations keep the invariant, hence so does every sequence of them.\<close>

lemma registryInv_UpdateAutoscalerCron:
  assumes "registryInv w"
  shows "registryInv (snd (UpdateAutoscalerCron env deployment w))"
proof -
  let ?n = "lookup (Labels deployment) ''apiName''"
  have fresh: "\<And>h n. autoscalerCrons w n = Some h \<Longrightarrow> h < cronsStarted w"
    and reg: "\<And>h n. running w h = Some n \<Longrightarrow> autoscalerCrons w n = Some h"
    using assms by (auto simp: registryInv_def)
  have live: "\<And>h n. running w h = Some n \<Longrightarrow> h < cronsStarted w"
    using fresh reg by blast
  show ?thesis
  proof (cases "AutoscaleFn env deployment")
    case (Inl err)
    then show ?thesis
      using fresh reg
      by (auto simp: registryInv_def UpdateAutoscalerCron_def CronCancel_def Let_def
          split: option.splits)
  next
    case (Inr autoscaler)
    then show ?thesis
      using fresh reg live
      by (auto simp: registryInv_def UpdateAutoscalerCron_def CronCancel_def CronRun_def Let_def
          less_Suc_eq split: option.splits if_splits)
  qed
qed

lemma deleteK8sResources_registry:
  "autoscalerCrons (snd (deleteK8sResources env apiName w)) = (autoscalerCrons w)(apiName := None)"
  "running (snd (deleteK8sResources env apiName w)) =
     (case autoscalerCrons w apiName of None \<Rightarrow> running w | Some h \<Rightarrow> (running w)(h := None))"
  "cronsStarted (snd (deleteK8sResources env apiName w)) = cronsStarted w"
  by (auto simp: deleteK8sResources_def cancelAndDeleteDeployment_def RunFirstErr_def
      DeleteDeployment_def DeleteService_def DeleteVirtualService_def call_def CronCancel_def
      Let_def split: option.splits prod.splits)

lemma registryInv_deleteK8sResources:
  assumes "registryInv w"
  shows "registryInv (snd (deleteK8sResources env apiName w))"
  using assms
  by (auto simp: registryInv_def deleteK8sResources_registry split: option.splits if_splits)

text \<open>After the workload deletion path no task of that name is registered or running.\<close>

lemma deleteK8sResources_leaves_no_task:
  assumes "registryInv w"
  shows "autoscalerCrons (snd (deleteK8sResources env apiName w)) apiName = None \<and>
         (\<forall>h. running (snd (deleteK8sResources env apiName w)) h \<noteq> Some apiName)"
  using assms
  by (auto simp: registryInv_def deleteK8sResources_registry split: option.splits if_splits)

lemma registryInv_registryRun:
  "registryInv w \<Longrightarrow> registryInv (registryRun env ops w)"
  unfolding registryRun_def
proof (induction ops arbitrary: w)
  case Nil
  then show ?case by simp
next
  case (Cons op ops)
  have "registryInv (registryStep env op w)"
    using Cons.prems
    by (cases op) (simp_all add: registryInv_UpdateAutoscalerCron registryInv_deleteK8sResources)
  then show ?case using Cons.IH by simp
qed

text \<open>
  A refresh whose autoscaler can be derived leaves exactly the new task running under
  the name, and registers it.
\<close>

lemma UpdateAutoscalerCron_replaces:
  assumes "registryInv w" and "AutoscaleFn env deployment = Inr autoscaler"
  shows "autoscalerCrons (snd (UpdateAutoscalerCron env deployment w))
           (lookup (Labels deployment) ''apiName'') = Some (cronsStarted w) \<and>
         (\<forall>h. running (snd (UpdateAutoscalerCron env deployment w)) h
                = Some (lookup (Labels deployment) ''apiName'') \<longleftrightarrow> h = cronsStarted w)"
proof -
  have reg: "\<And>h n. running w h = Some n \<Longrightarrow> autoscalerCrons w n = Some h"
    using assms(1) by (auto simp: registryInv_def)
  show ?thesis
    using assms(2) reg
    by (auto simp: UpdateAutoscalerCron_def CronCancel_def CronRun_def Let_def
        split: option.splits if_splits)
qed

text \<open>The task registered before is cancelled before the new one is started.\<close>

lemma UpdateAutoscalerCron_trace:
  "trace (snd (UpdateAutoscalerCron env deployment w)) =
     trace w @
     (case autoscalerCrons w (lookup (Labels deployment) ''apiName'') of
        None \<Rightarrow> [] | Some h \<Rightarrow> [CronCancelCall h]) @
     (case AutoscaleFn env deployment of
        Inl err \<Rightarrow> []
      | Inr autoscaler \<Rightarrow>
          [CronRunCall (cronsStarted w) (lookup (Labels deployment) ''apiName'') autoscaler])"
  by (simp add: UpdateAutoscalerCron_def CronCancel_def CronRun_def Let_def
      split: option.splits sum.splits)

text \<open>
  A refresh whose autoscaler cannot be derived returns after the cancellation: the table
  still holds the handle it has just cancelled.
\<close>

lemma UpdateAutoscalerCron_failed_derivation:
  assumes "autoscalerCrons w (lookup (Labels deployment) ''apiName'') = Some h"
    and "AutoscaleFn env deployment = Inl err"
  shows "fst (UpdateAutoscalerCron env deployment w) = Some err \<and>
         autoscalerCrons (snd (UpdateAutoscalerCron env deployment w))
           (lookup (Labels deployment) ''apiName'') = Some h \<and>
         running (snd (UpdateAutoscalerCron env deployment w)) h = None"
  using assms by (simp add: UpdateAutoscalerCron_def CronCancel_def Let_def)

text \<open>
  Claim C1, at its failing input.  Task 0 runs and is registered for \<open>a\<close>.  The workload of
  \<open>a\<close> is refreshed with annotations from which no autoscaler can be derived.  The call
  returns the error, the table still maps \<open>a\<close> to handle 0, and task 0 no longer runs:
  the registry retains a cancelled handle that no live task replaced.
\<close>

theorem UpdateAutoscalerCron_keeps_cancelled_handle:
  "running exampleWorld 0 = Some ''a'' \<and>
   autoscalerCrons exampleWorld ''a'' = Some 0 \<and>
   fst (UpdateAutoscalerCron exampleEnv (exampleDeployment\<lparr>Annotations := []\<rparr>) exampleWorld)
     = Some (Err ''min_replicas'') \<and>
   autoscalerCrons
     (snd (UpdateAutoscalerCron exampleEnv (exampleDeployment\<lparr>Annotations := []\<rparr>) exampleWorld))
     ''a'' = Some 0 \<and>
   running
     (snd (UpdateAutoscalerCron exampleEnv (exampleDeployment\<lparr>Annotations := []\<rparr>) exampleWorld))
     0 = None"
  by (simp add: UpdateAutoscalerCron_def CronCancel_def Let_def lookup_def ex_defs)

section \<open>Deployment identity\<close>

text \<open>
  Claim C2, as the code has it.  The deployment identity \<open>UpdateAPI\<close> gives to the
  materializer is the \<open>deploymentID\<close> label of the existing workload object when that
  object exists and the label is not empty, and the name drawn from \<open>k8s.RandomName\<close>
  when there is no workload object or its label is missing or empty.  The spec that a
  call returns is materialized with that identity, and so is the one spec, if any, that
  the call uploads, on failing calls too.
\<close>

theorem UpdateAPI_deploymentID:
  fixes env apiConfig projectID force w
  defines "deploymentID \<equiv>
    (case deployments w (K8sName env (ConfigName apiConfig)) of
       None \<Rightarrow> randomNames w (randomUsed w)
     | Some prev \<Rightarrow>
         if lookup (Labels prev) ''deploymentID'' \<noteq> []
         then lookup (Labels prev) ''deploymentID''
         else randomNames w (randomUsed w))"
  defines "api \<equiv> GetAPISpec env apiConfig projectID deploymentID"
  defines "res \<equiv> UpdateAPI env apiConfig projectID force w"
  shows "(\<forall>api' msg. fst res = Inr (api', msg) \<longrightarrow> api' = api) \<and>
         (filter isUpload (trace (snd res)) = filter isUpload (trace w) \<or>
          filter isUpload (trace (snd res)) =
            filter isUpload (trace w) @ [UploadMsgpackToS3Call api (Bucket env) (Key api)])"
proof -
  obtain prevDeployment prevService prevVirtualService err w1 where
    g: "getK8sResources env (ConfigName apiConfig) w =
          ((prevDeployment, prevService, prevVirtualService, err), w1)"
    by (metis prod_cases4 surj_pair)
  have w1: "randomNames w1 = randomNames w" "randomUsed w1 = randomUsed w"
    "filter isUpload (trace w1) = filter isUpload (trace w)"
    using getK8sResources_frame[of env "ConfigName apiConfig" w] by (simp_all add: g)
  show ?thesis
  proof (cases err)
    case (Some e)
    then show ?thesis by (simp add: res_def UpdateAPI_def g w1)
  next
    case None
    have pd: "prevDeployment = deployments w (K8sName env (ConfigName apiConfig))"
      using g None by (simp add: getK8sResources_deployment)
    have id: "GetAPISpec env apiConfig projectID
                (chooseDeploymentID prevDeployment (randomNames w (randomUsed w))) = api"
      by (simp add: chooseDeploymentID_def deploymentID_def api_def pd)
    show ?thesis
    proof (cases prevDeployment)
      case absent: None
      show ?thesis
        unfolding res_def UpdateAPI_def g None
        using id[unfolded absent]
        by (simp add: absent RandomName_def w1 Let_def case_prod_beta
            UpdateAPI_frames PrintError_def go_def
            split: option.splits sum.splits)
    next
      case (Some prev)
      show ?thesis
        unfolding res_def UpdateAPI_def g None
        using id[unfolded Some]
        by (simp add: Some RandomName_def w1 Let_def case_prod_beta
            UpdateAPI_frames PrintError_def go_def
            split: option.splits sum.splits)
    qed
  qed
qed

text \<open>
  A workload object exists without a \<open>deploymentID\<close> label: the label reads as the empty
  string, and the spec is materialized with the fresh name \<open>r\<close>.
\<close>

theorem UpdateAPI_deploymentID_counterexample:
  "deployments unlabelledWorld (K8sName exampleEnv (ConfigName exampleConfig)) = Some unlabelled \<and>
   lookup (Labels unlabelled) ''deploymentID'' = [] \<and>
   randomNames unlabelledWorld (randomUsed unlabelledWorld) = ''r'' \<and>
   fst (UpdateAPI exampleEnv exampleConfig ''p'' True unlabelledWorld) =
     Inr (GetAPISpec exampleEnv exampleConfig ''p'' ''r'', ''updating a'') \<and>
   DeploymentID (GetAPISpec exampleEnv exampleConfig ''p'' ''r'') \<noteq>
     lookup (Labels unlabelled) ''deploymentID''"
  by (simp add: api_defs gw_defs ex_defs unlabelled_def unlabelledWorld_def Let_def)

text \<open>
  With the label \<open>dep1\<close> on the workload the identity is \<open>dep1\<close>; with no workload it is
  the fresh name \<open>r\<close>, which is also the identity of the spec uploaded.
\<close>

theorem UpdateAPI_deploymentID_witness:
  "deployments exampleWorld (K8sName exampleEnv (ConfigName exampleConfig)) = Some exampleDeployment \<and>
   lookup (Labels exampleDeployment) ''deploymentID'' = ''dep1'' \<and>
   fst (UpdateAPI exampleEnv exampleConfig ''p'' False exampleWorld) =
     Inr (GetAPISpec exampleEnv exampleConfig ''p'' ''dep1'', ''a is already updating'') \<and>
   deployments emptyWorld (K8sName exampleEnv (ConfigName exampleConfig)) = None \<and>
   fst (UpdateAPI exampleEnv exampleConfig ''p'' False emptyWorld) =
     Inr (GetAPISpec exampleEnv exampleConfig ''p'' ''r'', ''creating a'') \<and>
   filter isUpload (trace (snd (UpdateAPI exampleEnv exampleConfig ''p'' False emptyWorld))) =
     [UploadMsgpackToS3Call (GetAPISpec exampleEnv exampleConfig ''p'' ''r'') ''bucket'' ''apis/a'']"
proof -
  obtain api1 where r1: "fst (UpdateAPI exampleEnv exampleConfig ''p'' False exampleWorld) =
      Inr (api1, ''a is already updating'')"
    by (simp add: api_defs gw_defs ex_defs Let_def)
  obtain api2 where r2: "fst (UpdateAPI exampleEnv exampleConfig ''p'' False emptyWorld) =
      Inr (api2, ''creating a'')"
    by (simp add: api_defs gw_defs ex_defs Let_def)
  have up: "filter isUpload (trace (snd (UpdateAPI exampleEnv exampleConfig ''p'' False emptyWorld)))
      \<noteq> []"
    by (simp add: api_defs gw_defs ex_defs Let_def)
  have d1: "deployments exampleWorld (K8sName exampleEnv (ConfigName exampleConfig))
      = Some exampleDeployment"
    and d2: "deployments emptyWorld (K8sName exampleEnv (ConfigName exampleConfig)) = None"
    and l: "lookup (Labels exampleDeployment) ''deploymentID'' = ''dep1''"
    by (simp_all add: lookup_def ex_defs)
  have t0: "trace emptyWorld = []" "randomNames emptyWorld (randomUsed emptyWorld) = ''r''"
    "Bucket exampleEnv = ''bucket''" "Key (GetAPISpec exampleEnv exampleConfig ''p'' ''r'') = ''apis/a''"
    by (simp_all add: ex_defs)
  show ?thesis
    using UpdateAPI_deploymentID[where env = exampleEnv and apiConfig = exampleConfig
        and projectID = "''p''" and force = False and w = exampleWorld]
      UpdateAPI_deploymentID[where env = exampleEnv and apiConfig = exampleConfig
        and projectID = "''p''" and force = False and w = emptyWorld]
      r1 r2 up
    by (simp add: d1 d2 l t0)
qed

section \<open>Equality evaluator: what is compared\<close>

lemma Contains_sublist: "Contains s substr \<longleftrightarrow> sublist substr s"
  by (induction s) (simp_all add: sublist_Cons_right)

lemma StrMapsEqual_map_of:
  assumes "distinct (map fst m1)" and "distinct (map fst m2)"
  shows "StrMapsEqual m1 m2 \<longleftrightarrow> map_of m1 = map_of m2"
proof
  assume eq: "StrMapsEqual m1 m2"
  then have len: "length m1 = length m2"
    and ent: "\<And>k v. (k, v) \<in> set m1 \<Longrightarrow> map_of m2 k = Some v"
    by (auto simp: StrMapsEqual_def list_all_iff)
  have sub: "fst ` set m1 \<subseteq> fst ` set m2"
  proof
    fix k assume "k \<in> fst ` set m1"
    then obtain v where "(k, v) \<in> set m1" by auto
    then have "map_of m2 k = Some v" by (rule ent)
    then show "k \<in> fst ` set m2" by (metis map_of_SomeD fst_conv image_eqI)
  qed
  have "card (fst ` set m1) = length m1" "card (fst ` set m2) = length m2"
    using assms by (metis distinct_card length_map list.set_map)+
  with len have "card (fst ` set m1) = card (fst ` set m2)" by simp
  with sub have keys: "fst ` set m1 = fst ` set m2"
    by (simp add: card_subset_eq)
  show "map_of m1 = map_of m2"
  proof
    fix k
    show "map_of m1 k = map_of m2 k"
    proof (cases "map_of m1 k")
      case None
      then have "k \<notin> fst ` set m2" using keys by (simp add: map_of_eq_None_iff)
      then have "map_of m2 k = None" by (simp add: map_of_eq_None_iff)
      with None show ?thesis by simp
    next
      case (Some v)
      then have "(k, v) \<in> set m1" by (rule map_of_SomeD)
      then show ?thesis using Some ent by simp
    qed
  qed
next
  assume eq: "map_of m1 = map_of m2"
  then have "dom (map_of m1) = dom (map_of m2)" by simp
  then have "fst ` set m1 = fst ` set m2" by (simp add: dom_map_of_conv_image_fst)
  moreover have "card (fst ` set m1) = length m1" "card (fst ` set m2) = length m2"
    using assms by (metis distinct_card length_map list.set_map)+
  ultimately have "length m1 = length m2" by simp
  moreover have "map_of m2 k = Some v" if "(k, v) \<in> set m1" for k v
    using that assms(1) eq by (metis map_of_is_SomeI)
  ultimately show "StrMapsEqual m1 m2"
    by (auto simp: StrMapsEqual_def list_all_iff)
qed

lemma fold_keepCortexAnnotation_distinct:
  "distinct (map fst acc) \<Longrightarrow> distinct (map fst (fold keepCortexAnnotation xs acc))"
  by (induction xs arbitrary: acc) (auto simp: keepCortexAnnotation_def distinct_update)

lemma fold_keepCortexAnnotation_map_of:
  "distinct (map fst xs) \<Longrightarrow>
   map_of (fold keepCortexAnnotation xs acc) k =
     (if Contains k ''cortex.dev/'' \<and> k \<in> fst ` set xs then map_of xs k else map_of acc k)"
proof (induction xs arbitrary: acc)
  case Nil
  then show ?case by simp
next
  case (Cons x xs)
  obtain key val where x: "x = (key, val)" by (cases x)
  from Cons.prems have d: "distinct (map fst xs)" and nk: "key \<notin> fst ` set xs"
    by (auto simp: x)
  show ?case
    using Cons.IH[OF d] nk
    by (auto simp: x keepCortexAnnotation_def update_conv')
qed

lemma fold_keepCortexAnnotation_empty:
  assumes "distinct (map fst xs)"
  shows "map_of (fold keepCortexAnnotation xs []) k = (if Contains k ''cortex.dev/'' then map_of xs k else None)"
proof (cases "k \<in> fst ` set xs")
  case True
  then show ?thesis by (simp add: fold_keepCortexAnnotation_map_of[OF assms])
next
  case False
  then have "map_of xs k = None" by (simp add: map_of_eq_None_iff)
  with False show ?thesis by (simp add: fold_keepCortexAnnotation_map_of[OF assms])
qed

lemma extractCortexAnnotations_fold: "extractCortexAnnotations obj = fold keepCortexAnnotation (Annotations obj) []"
  by (simp add: extractCortexAnnotations_def)

lemma doCortexAnnotationsMatch_iff:
  assumes "wf_StrMap (Annotations d1)" and "wf_StrMap (Annotations d2)"
  shows "doCortexAnnotationsMatch d1 d2 \<longleftrightarrow>
           (\<forall>key. sublist ''cortex.dev/'' key \<longrightarrow>
                  map_of (Annotations d1) key = map_of (Annotations d2) key)"
proof -
  let ?e1 = "extractCortexAnnotations d1" and ?e2 = "extractCortexAnnotations d2"
  have d1: "distinct (map fst (Annotations d1))" and d2: "distinct (map fst (Annotations d2))"
    using assms by (simp_all add: wf_StrMap_def)
  have m1: "map_of ?e1 k = (if sublist ''cortex.dev/'' k then map_of (Annotations d1) k else None)" for k
    by (simp add: extractCortexAnnotations_fold fold_keepCortexAnnotation_empty[OF d1] Contains_sublist)
  have m2: "map_of ?e2 k = (if sublist ''cortex.dev/'' k then map_of (Annotations d2) k else None)" for k
    by (simp add: extractCortexAnnotations_fold fold_keepCortexAnnotation_empty[OF d2] Contains_sublist)
  have "doCortexAnnotationsMatch d1 d2 \<longleftrightarrow> map_of ?e1 = map_of ?e2"
    unfolding doCortexAnnotationsMatch_def Let_def
    by (rule StrMapsEqual_map_of) (simp_all add: extractCortexAnnotations_fold fold_keepCortexAnnotation_distinct)
  also have "\<dots> \<longleftrightarrow> (\<forall>k. map_of ?e1 k = map_of ?e2 k)" by (simp add: fun_eq_iff)
  also have "\<dots> \<longleftrightarrow> (\<forall>key. sublist ''cortex.dev/'' key \<longrightarrow>
                  map_of (Annotations d1) key = map_of (Annotations d2) key)"
    by (simp add: m1 m2)
  finally show ?thesis .
qed

text \<open>
  Claim C3, as the code has it.  Two workload definitions are reported equal exactly when
  their pod compute specs and rollout strategies are judged to match, the three identity
  labels \<open>apiName\<close>, \<open>apiID\<close> and \<open>deploymentID\<close> read the same, and every annotation
  whose key contains \<open>cortex.dev/\<close> at any position has the same presence and value in
  both.  So pairs that differ only in annotations whose keys do not contain that marker
  are equal, and a difference in any of the other five places makes them unequal.
\<close>

theorem areAPIsEqual_iff:
  assumes "wf_StrMap (Annotations d1)" and "wf_StrMap (Annotations d2)"
  shows "areAPIsEqual env d1 d2 \<longleftrightarrow>
           (PodComputesEqual env (TemplateSpec d1) (TemplateSpec d2) \<and>
            DeploymentStrategiesMatch env (Strategy d1) (Strategy d2) \<and>
            lookup (Labels d1) ''apiName'' = lookup (Labels d2) ''apiName'' \<and>
            lookup (Labels d1) ''apiID'' = lookup (Labels d2) ''apiID'' \<and>
            lookup (Labels d1) ''deploymentID'' = lookup (Labels d2) ''deploymentID'' \<and>
            (\<forall>key. sublist ''cortex.dev/'' key \<longrightarrow>
                   map_of (Annotations d1) key = map_of (Annotations d2) key))"
  unfolding areAPIsEqual_def doCortexAnnotationsMatch_iff[OF assms] by (rule refl)

text \<open>
  An annotation added by the platform, whose key does not contain the marker, is ignored.
\<close>

theorem areAPIsEqual_iff_witness:
  "wf_StrMap (Annotations exampleDeployment) \<and>
   wf_StrMap (Annotations (annotated ''deployment.kubernetes.io/revision'' ''2'')) \<and>
   Annotations exampleDeployment \<noteq>
     Annotations (annotated ''deployment.kubernetes.io/revision'' ''2'') \<and>
   areAPIsEqual exampleEnv exampleDeployment (annotated ''deployment.kubernetes.io/revision'' ''2'')"
proof -
  let ?d = "annotated ''deployment.kubernetes.io/revision'' ''2''"
  have w1: "wf_StrMap (Annotations exampleDeployment)"
    by (simp add: wf_StrMap_def exampleDeployment_def)
  have w2: "wf_StrMap (Annotations ?d)"
    by (simp add: wf_StrMap_def annotated_def exampleDeployment_def)
  have ne: "Annotations exampleDeployment \<noteq> Annotations ?d"
    by (simp add: annotated_def exampleDeployment_def)
  have other: "\<not> sublist ''cortex.dev/'' ''deployment.kubernetes.io/revision''"
    by (simp add: sublist_Cons_right)
  have anns: "\<forall>key. sublist ''cortex.dev/'' key \<longrightarrow>
                map_of (Annotations exampleDeployment) key = map_of (Annotations ?d) key"
    using other by (auto simp: annotated_def exampleDeployment_def)
  have rest: "PodComputesEqual exampleEnv (TemplateSpec exampleDeployment) (TemplateSpec ?d)"
    "DeploymentStrategiesMatch exampleEnv (Strategy exampleDeployment) (Strategy ?d)"
    "Labels exampleDeployment = Labels ?d"
    by (simp_all add: annotated_def exampleDeployment_def exampleEnv_def)
  from areAPIsEqual_iff[OF w1 w2, of exampleEnv] anns rest w1 w2 ne show ?thesis by simp
qed

text \<open>
  The key \<open>notcortex.dev/owner\<close> does not start with \<open>cortex.dev/\<close>, it only contains it.
  Two definitions that differ in nothing but the value of that annotation are reported
  as not equal.
\<close>

theorem reserved_prefix_counterexample:
  "\<not> prefix ''cortex.dev/'' ''notcortex.dev/owner'' \<and>
   annotated ''notcortex.dev/owner'' ''y'' =
     (annotated ''notcortex.dev/owner'' ''x'')
       \<lparr>Annotations := [(''autoscaling.cortex.dev/min-replicas'', ''3''),
                        (''notcortex.dev/owner'', ''y'')]\<rparr> \<and>
   PodComputesEqual exampleEnv (TemplateSpec (annotated ''notcortex.dev/owner'' ''x''))
     (TemplateSpec (annotated ''notcortex.dev/owner'' ''y'')) \<and>
   DeploymentStrategiesMatch exampleEnv (Strategy (annotated ''notcortex.dev/owner'' ''x''))
     (Strategy (annotated ''notcortex.dev/owner'' ''y'')) \<and>
   \<not> areAPIsEqual exampleEnv (annotated ''notcortex.dev/owner'' ''x'')
       (annotated ''notcortex.dev/owner'' ''y'')"
  by (simp add: areAPIsEqual_def doCortexAnnotationsMatch_def extractCortexAnnotations_def
      keepCortexAnnotation_def Let_def
      StrMapsEqual_def annotated_def exampleDeployment_def exampleEnv_def lookup_def)

section \<open>Rollout status tracker\<close>

text \<open>
  Claim C4.  When the pod listing succeeds and the autoscaling annotations parse,
  \<open>isAPIUpdating\<close> answers true exactly when the ready count of the current revision is
  below the minimum replica count, as signed 32-bit integers, and the failed count of the
  current revision is zero.  Any failed pod of the current revision makes the answer false.
\<close>

theorem isAPIUpdating_iff:
  assumes "ListPodsByLabel ''apiName'' (lookup (Labels deployment) ''apiName'') w = (Inr podList, w1)"
    and "AutoscalingFromAnnotations env deployment = Inr autoscalingSpec"
  shows "isAPIUpdating env deployment w =
           (Inr (sint (Ready (Updated (getReplicaCounts env deployment podList)))
                   < sint (MinReplicas autoscalingSpec) \<and>
                 TotalFailed (Updated (getReplicaCounts env deployment podList)) = 0), w1)"
  using assms by (simp add: isAPIUpdating_def Let_def word_sless_alt)

text \<open>
  The three cases of the spec, with a minimum of 3 replicas: 2 ready and none failed is
  converging; 2 ready and 1 failed is not; 3 ready and none failed is not.
\<close>

theorem isAPIUpdating_iff_witness:
  "fst (isAPIUpdating exampleEnv exampleDeployment exampleWorld) = Inr True \<and>
   fst (isAPIUpdating exampleEnv exampleDeployment
          (exampleWorld\<lparr>pods := \<lambda>k v. [Pod 0, Pod 0, Pod 1]\<rparr>)) = Inr False \<and>
   fst (isAPIUpdating exampleEnv exampleDeployment
          (exampleWorld\<lparr>pods := \<lambda>k v. [Pod 0, Pod 0, Pod 0]\<rparr>)) = Inr False"
proof -
  have spec: "AutoscalingFromAnnotations exampleEnv exampleDeployment = Inr \<lparr>MinReplicas = 3\<rparr>"
    by (simp add: exampleEnv_def exampleDeployment_def)
  have l1: "ListPodsByLabel ''apiName'' (lookup (Labels exampleDeployment) ''apiName'') exampleWorld
              = (Inr [Pod 0, Pod 0], exampleWorld\<lparr>trace := [ListPodsByLabelCall ''apiName'' ''a'']\<rparr>)"
    by (simp add: ListPodsByLabel_def call_def lookup_def ex_defs)
  have l2: "ListPodsByLabel ''apiName'' (lookup (Labels exampleDeployment) ''apiName'')
              (exampleWorld\<lparr>pods := \<lambda>k v. [Pod 0, Pod 0, Pod 1]\<rparr>)
              = (Inr [Pod 0, Pod 0, Pod 1],
                 exampleWorld\<lparr>pods := \<lambda>k v. [Pod 0, Pod 0, Pod 1],
                              trace := [ListPodsByLabelCall ''apiName'' ''a'']\<rparr>)"
    by (simp add: ListPodsByLabel_def call_def lookup_def ex_defs)
  have l3: "ListPodsByLabel ''apiName'' (lookup (Labels exampleDeployment) ''apiName'')
              (exampleWorld\<lparr>pods := \<lambda>k v. [Pod 0, Pod 0, Pod 0]\<rparr>)
              = (Inr [Pod 0, Pod 0, Pod 0],
                 exampleWorld\<lparr>pods := \<lambda>k v. [Pod 0, Pod 0, Pod 0],
                              trace := [ListPodsByLabelCall ''apiName'' ''a'']\<rparr>)"
    by (simp add: ListPodsByLabel_def call_def lookup_def ex_defs)
  show ?thesis
    using isAPIUpdating_iff[OF l1 spec] isAPIUpdating_iff[OF l2 spec] isAPIUpdating_iff[OF l3 spec]
    by (simp add: exampleEnv_def TotalFailed_def)
qed

section \<open>Failure of the apply in UpdateAPI\<close>

text \<open>
  Claim C5.  The three reads succeeded and the spec was uploaded.  On the creation path
  (no prior workload object) a failing apply makes \<open>UpdateAPI\<close> return that error; the
  world it leaves is the one the apply left, with one goroutine started for
  \<open>deleteK8sResources\<close> of the API and not yet run, so nothing of the teardown is in
  the result.  On the update path (prior workload, changed definition, no rollout in the
  way or \<open>force\<close>) a failing apply makes \<open>UpdateAPI\<close> return that error and the world the
  apply left: no goroutine is started and no cleanup is made.
\<close>

theorem UpdateAPI_apply_failure:
  fixes env apiConfig projectID force w prevDeployment prevService prevVirtualService
  defines "fetched \<equiv> getK8sResources env (ConfigName apiConfig) w"
  defines "api \<equiv> GetAPISpec env apiConfig projectID
                   (chooseDeploymentID prevDeployment (randomNames w (randomUsed w)))"
  defines "w2 \<equiv> snd (RandomName (snd fetched))"
  defines "res \<equiv> UpdateAPI env apiConfig projectID force w"
  assumes fetch: "fst fetched = (prevDeployment, prevService, prevVirtualService, None)"
  shows "(prevDeployment = None \<longrightarrow>
            (let uploaded = UploadMsgpackToS3 api (Bucket env) (Key api) w2;
                 applied = applyK8sResources env api prevDeployment prevService prevVirtualService
                             (snd uploaded)
             in fst uploaded = None \<longrightarrow>
                (\<forall>err. fst applied = Some err \<longrightarrow>
                   res = (Inl err,
                          (snd applied)\<lparr>spawned :=
                             spawned w @ [GoDeleteK8sResources (APIName api)]\<rparr>)))) \<and>
         (\<forall>prev. prevDeployment = Some prev \<longrightarrow>
            \<not> areAPIsEqual env prev (DeploymentSpec env api prevDeployment) \<longrightarrow>
            (let checked = isAPIUpdating env prev w2;
                 uploaded = UploadMsgpackToS3 api (Bucket env) (Key api) (snd checked);
                 applied = applyK8sResources env api prevDeployment prevService prevVirtualService
                             (snd uploaded)
             in (fst checked = Inr False \<or> fst checked = Inr True \<and> force) \<longrightarrow>
                fst uploaded = None \<longrightarrow>
                (\<forall>err. fst applied = Some err \<longrightarrow>
                   res = (Inl err, snd applied) \<and> spawned (snd applied) = spawned w)))"
proof -
  have g: "getK8sResources env (ConfigName apiConfig) w =
             ((prevDeployment, prevService, prevVirtualService, None), snd fetched)"
    using fetch by (simp add: fetched_def prod_eq_iff)
  have w1: "randomNames (snd fetched) = randomNames w" "randomUsed (snd fetched) = randomUsed w"
    "spawned (snd fetched) = spawned w"
    by (simp_all add: fetched_def getK8sResources_frame)
  have id: "GetAPISpec env apiConfig projectID
              (chooseDeploymentID prevDeployment (randomNames w (randomUsed w))) = api"
    by (simp add: api_def)
  show ?thesis
  proof (cases prevDeployment)
    case None
    show ?thesis
      unfolding res_def UpdateAPI_def g w2_def
      using id[unfolded None]
      by (simp add: None RandomName_def w1 Let_def case_prod_beta go_def UpdateAPI_frames)
  next
    case (Some prev)
    show ?thesis
      unfolding res_def UpdateAPI_def g w2_def
      using id[unfolded Some]
      by (auto simp: Some RandomName_def w1 Let_def case_prod_beta UpdateAPI_frames)
  qed
qed

text \<open>
  The endpoint write fails.  Creating \<open>a\<close> returns the error and has started the teardown
  goroutine; updating \<open>a\<close> with a changed configuration returns the error and has started
  none.
\<close>

theorem UpdateAPI_apply_failure_witness:
  "fst (UpdateAPI exampleEnv exampleConfig ''p'' False (emptyWorld\<lparr>faults := failingService\<rparr>))
     = Inl (Err ''endpoint'') \<and>
   spawned (snd (UpdateAPI exampleEnv exampleConfig ''p'' False
                   (emptyWorld\<lparr>faults := failingService\<rparr>)))
     = [GoDeleteK8sResources ''a''] \<and>
   fst (UpdateAPI exampleEnv changedConfig ''p'' True (exampleWorld\<lparr>faults := failingService\<rparr>))
     = Inl (Err ''endpoint'') \<and>
   spawned (snd (UpdateAPI exampleEnv changedConfig ''p'' True
                   (exampleWorld\<lparr>faults := failingService\<rparr>)))
     = []"
proof -
  let ?we = "emptyWorld\<lparr>faults := failingService\<rparr>"
  let ?wx = "exampleWorld\<lparr>faults := failingService\<rparr>"
  let ?svc = "\<lparr>ServiceName = ''api-a'', ServiceBody = 0\<rparr>"
  let ?vs = "\<lparr>VirtualServiceName = ''api-a'', VirtualServiceBody = 0\<rparr>"
  have create:
    "fst (UpdateAPI exampleEnv exampleConfig ''p'' False ?we) = Inl (Err ''endpoint'') \<and>
     spawned (snd (UpdateAPI exampleEnv exampleConfig ''p'' False ?we)) = [GoDeleteK8sResources ''a'']"
  proof -
    define api where "api = GetAPISpec exampleEnv exampleConfig ''p''
      (chooseDeploymentID None (randomNames ?we (randomUsed ?we)))"
    define w2 where "w2 = snd (RandomName (snd (getK8sResources exampleEnv (ConfigName exampleConfig) ?we)))"
    define uploaded where "uploaded = UploadMsgpackToS3 api (Bucket exampleEnv) (Key api) w2"
    define applied where "applied = applyK8sResources exampleEnv api None None None (snd uploaded)"
    have f: "fst (getK8sResources exampleEnv (ConfigName exampleConfig) ?we) = (None, None, None, None)"
      by (simp add: api_defs gw_defs ex_defs failingService_def)
    have u: "fst uploaded = None"
      by (simp add: uploaded_def w2_def api_def api_defs gw_defs ex_defs failingService_def)
    have a: "fst applied = Some (Err ''endpoint'')"
      by (simp add: applied_def uploaded_def w2_def api_def api_defs gw_defs ex_defs
          failingService_def Let_def)
    have n: "APIName api = ''a''" "spawned ?we = []"
      by (simp_all add: api_def ex_defs)
    from UpdateAPI_apply_failure[OF f, where force = False and projectID = "''p''"] u a
    have "UpdateAPI exampleEnv exampleConfig ''p'' False ?we =
            (Inl (Err ''endpoint''),
             (snd applied)\<lparr>spawned := spawned ?we @ [GoDeleteK8sResources (APIName api)]\<rparr>)"
      unfolding Let_def api_def[symmetric] w2_def[symmetric] uploaded_def[symmetric]
        applied_def[symmetric]
      by simp
    then show ?thesis by (simp add: n)
  qed
  have update:
    "fst (UpdateAPI exampleEnv changedConfig ''p'' True ?wx) = Inl (Err ''endpoint'') \<and>
     spawned (snd (UpdateAPI exampleEnv changedConfig ''p'' True ?wx)) = []"
  proof -
    define api where "api = GetAPISpec exampleEnv changedConfig ''p''
      (chooseDeploymentID (Some exampleDeployment) (randomNames ?wx (randomUsed ?wx)))"
    define w2 where "w2 = snd (RandomName (snd (getK8sResources exampleEnv (ConfigName changedConfig) ?wx)))"
    define checked where "checked = isAPIUpdating exampleEnv exampleDeployment w2"
    define uploaded where
      "uploaded = UploadMsgpackToS3 api (Bucket exampleEnv) (Key api) (snd checked)"
    define applied where "applied = applyK8sResources exampleEnv api (Some exampleDeployment)
      (Some ?svc) (Some ?vs) (snd uploaded)"
    have f: "fst (getK8sResources exampleEnv (ConfigName changedConfig) ?wx) =
               (Some exampleDeployment, Some ?svc, Some ?vs, None)"
      by (simp add: api_defs gw_defs ex_defs changedConfig_def failingService_def)
    have ne: "\<not> areAPIsEqual exampleEnv exampleDeployment
                (DeploymentSpec exampleEnv api (Some exampleDeployment))"
      by (simp add: api_def api_defs ex_defs changedConfig_def)
    have c: "fst checked = Inr True"
      by (simp add: checked_def w2_def api_defs gw_defs ex_defs changedConfig_def
          failingService_def Let_def)
    have u: "fst uploaded = None"
      by (simp add: uploaded_def checked_def w2_def api_def api_defs gw_defs ex_defs
          changedConfig_def failingService_def Let_def)
    have a: "fst applied = Some (Err ''endpoint'')"
      by (simp add: applied_def uploaded_def checked_def w2_def api_def api_defs gw_defs ex_defs
          changedConfig_def failingService_def Let_def)
    from UpdateAPI_apply_failure[OF f, where force = True and projectID = "''p''"] ne c u a
    have "UpdateAPI exampleEnv changedConfig ''p'' True ?wx = (Inl (Err ''endpoint''), snd applied) \<and>
          spawned (snd applied) = spawned ?wx"
      unfolding Let_def api_def w2_def checked_def uploaded_def applied_def
      by simp
    then show ?thesis by (simp add: ex_defs)
  qed
  from create update show ?thesis by simp
qed

section \<open>Refreshing an API\<close>

text \<open>
  Claim C6.  A successful \<open>RefreshAPI\<close> found the workload object, materialized the spec
  again from the persisted configuration with the next name drawn from \<open>k8s.RandomName\<close>
  as deployment identity, whether or not the configuration changed, stored that spec, and
  reports \<open>updating\<close> with the API's name.  The calls it made are, in order: the read of
  the workload, the pod listing, the download, the upload, the workload writes of the
  policy, and the refresh of the autoscaler task.  No endpoint or routing-rule call is
  among them and both tables are as before.
\<close>

theorem RefreshAPI_success:
  assumes "RefreshAPI env apiName force w = (Inr msg, w')"
  shows "\<exists>prevDeployment apiID autoscaler.
     deployments w (K8sName env apiName) = Some prevDeployment \<and>
     GetLabel env prevDeployment ''apiID'' = Inr apiID \<and>
     (let api0 = storedSpecs w apiName apiID;
          api = GetAPISpec env (UserConfig api0) (ProjectID api0) (randomNames w (randomUsed w));
          newDeployment = DeploymentSpec env api (Some prevDeployment);
          label = lookup (Labels newDeployment) ''apiName''
      in msg = ''updating '' @ APIName api \<and>
         randomUsed w' = Suc (randomUsed w) \<and>
         storedSpecs w' (APIName api) (ID api) = api \<and>
         AutoscaleFn env newDeployment = Inr autoscaler \<and>
         trace w' = trace w @
           [GetDeploymentCall (K8sName env apiName),
            ListPodsByLabelCall ''apiName'' (lookup (Labels prevDeployment) ''apiName''),
            DownloadAPISpecCall apiName apiID,
            UploadMsgpackToS3Call api (Bucket env) (Key api)] @
           workloadWrites env api (Some prevDeployment) @
           (case autoscalerCrons w label of None \<Rightarrow> [] | Some h \<Rightarrow> [CronCancelCall h]) @
           [CronRunCall (cronsStarted w) label autoscaler] \<and>
         services w' = services w \<and> virtualServices w' = virtualServices w)"
  using assms
  by (auto simp: RefreshAPI_def GetDeployment_def isAPIUpdating_def ListPodsByLabel_def
      DownloadAPISpec_def RandomName_def UploadMsgpackToS3_def applyK8sDeployment_def
      UpdateAutoscalerCron_def CreateDeployment_def UpdateDeployment_def DeleteDeployment_def
      CronRun_def CronCancel_def call_def workloadWrites_def Let_def
      split: option.splits sum.splits if_splits prod.splits)

text \<open>Refreshing the deployed API \<open>a\<close> with \<open>force\<close>, its rollout still converging.\<close>

theorem RefreshAPI_success_witness:
  "fst (RefreshAPI exampleEnv ''a'' True exampleWorld) = Inr ''updating a'' \<and>
   randomUsed (snd (RefreshAPI exampleEnv ''a'' True exampleWorld)) = 1 \<and>
   services (snd (RefreshAPI exampleEnv ''a'' True exampleWorld)) = services exampleWorld \<and>
   virtualServices (snd (RefreshAPI exampleEnv ''a'' True exampleWorld))
     = virtualServices exampleWorld \<and>
   trace (snd (RefreshAPI exampleEnv ''a'' True exampleWorld)) =
     [GetDeploymentCall ''api-a'', ListPodsByLabelCall ''apiName'' ''a'',
      DownloadAPISpecCall ''a'' ''id1'',
      UploadMsgpackToS3Call (GetAPISpec exampleEnv exampleConfig ''p'' ''r'') ''bucket'' ''apis/a'',
      UpdateDeploymentCall
        (DeploymentSpec exampleEnv (GetAPISpec exampleEnv exampleConfig ''p'' ''r'')
           (Some exampleDeployment)),
      CronCancelCall 0, CronRunCall 1 ''a'' (Autoscaler 1)]"
proof -
  define w' where "w' = snd (RefreshAPI exampleEnv ''a'' True exampleWorld)"
  have "fst (RefreshAPI exampleEnv ''a'' True exampleWorld) = Inr ''updating a''"
    by (simp add: api_defs gw_defs ex_defs Let_def)
  then have run: "RefreshAPI exampleEnv ''a'' True exampleWorld = (Inr ''updating a'', w')"
    by (simp add: prod_eq_iff w'_def)
  from RefreshAPI_success[OF run] obtain prevDeployment apiID autoscaler where
    prev: "deployments exampleWorld (K8sName exampleEnv ''a'') = Some prevDeployment"
    and label: "GetLabel exampleEnv prevDeployment ''apiID'' = Inr apiID"
    and rest: "let api0 = storedSpecs exampleWorld ''a'' apiID;
          api = GetAPISpec exampleEnv (UserConfig api0) (ProjectID api0)
                  (randomNames exampleWorld (randomUsed exampleWorld));
          newDeployment = DeploymentSpec exampleEnv api (Some prevDeployment);
          label = lookup (Labels newDeployment) ''apiName''
      in ''updating a'' = ''updating '' @ APIName api \<and>
         randomUsed w' = Suc (randomUsed exampleWorld) \<and>
         storedSpecs w' (APIName api) (ID api) = api \<and>
         AutoscaleFn exampleEnv newDeployment = Inr autoscaler \<and>
         trace w' = trace exampleWorld @
           [GetDeploymentCall (K8sName exampleEnv ''a''),
            ListPodsByLabelCall ''apiName'' (lookup (Labels prevDeployment) ''apiName''),
            DownloadAPISpecCall ''a'' apiID,
            UploadMsgpackToS3Call api (Bucket exampleEnv) (Key api)] @
           workloadWrites exampleEnv api (Some prevDeployment) @
           (case autoscalerCrons exampleWorld label of None \<Rightarrow> [] | Some h \<Rightarrow> [CronCancelCall h]) @
           [CronRunCall (cronsStarted exampleWorld) label autoscaler] \<and>
         services w' = services exampleWorld \<and> virtualServices w' = virtualServices exampleWorld"
    by blast
  have p: "prevDeployment = exampleDeployment"
    using prev by (simp add: exampleWorld_def exampleEnv_def)
  have a: "apiID = ''id1''"
    using label by (simp add: p exampleDeployment_def exampleEnv_def)
  have "fst (RefreshAPI exampleEnv ''a'' True exampleWorld) = Inr ''updating a'' \<and>
        randomUsed w' = 1 \<and> services w' = services exampleWorld \<and>
        virtualServices w' = virtualServices exampleWorld \<and>
        trace w' =
          [GetDeploymentCall ''api-a'', ListPodsByLabelCall ''apiName'' ''a'',
           DownloadAPISpecCall ''a'' ''id1'',
           UploadMsgpackToS3Call (GetAPISpec exampleEnv exampleConfig ''p'' ''r'') ''bucket'' ''apis/a'',
           UpdateDeploymentCall
             (DeploymentSpec exampleEnv (GetAPISpec exampleEnv exampleConfig ''p'' ''r'')
                (Some exampleDeployment)),
           CronCancelCall 0, CronRunCall 1 ''a'' (Autoscaler 1)]"
    using rest run
    by (auto simp: p a Let_def workloadWrites_def lookup_def ex_defs)
  then show ?thesis by (simp add: w'_def)
qed

section \<open>Applying the workload object\<close>

text \<open>
  Claim C7.  \<open>applyK8sDeployment\<close> issues exactly the gateway calls of the policy: a create
  when there is no prior workload, a delete followed by a create when the prior workload
  has zero ready replicas, an update otherwise.  When the create or update fails, its
  error is returned and the autoscaler registry and the running tasks are untouched.
  When it succeeds, the registration under the new workload's \<open>apiName\<close> label is
  refreshed: the task registered before is cancelled and, if the autoscaler can be
  derived, a new task is started and registered.
\<close>

theorem applyK8sDeployment_policy:
  fixes env api prevDeployment w
  defines "newDeployment \<equiv> DeploymentSpec env api prevDeployment"
  defines "writes \<equiv> workloadWrites env api prevDeployment"
  defines "fault \<equiv> faults w (last writes) (length (trace w) + (length writes - 1))"
  defines "apiName \<equiv> lookup (Labels newDeployment) ''apiName''"
  defines "res \<equiv> applyK8sDeployment env api prevDeployment w"
  shows "(\<forall>err. fault = Some err \<longrightarrow>
            fst res = Some err \<and> trace (snd res) = trace w @ writes \<and>
            autoscalerCrons (snd res) = autoscalerCrons w \<and> running (snd res) = running w \<and>
            cronsStarted (snd res) = cronsStarted w) \<and>
         (fault = None \<longrightarrow>
            (\<forall>err. AutoscaleFn env newDeployment = Inl err \<longrightarrow>
               fst res = Some err \<and>
               trace (snd res) = trace w @ writes @
                 (case autoscalerCrons w apiName of None \<Rightarrow> [] | Some h \<Rightarrow> [CronCancelCall h])) \<and>
            (\<forall>autoscaler. AutoscaleFn env newDeployment = Inr autoscaler \<longrightarrow>
               fst res = None \<and>
               trace (snd res) = trace w @ writes @
                 (case autoscalerCrons w apiName of None \<Rightarrow> [] | Some h \<Rightarrow> [CronCancelCall h]) @
                 [CronRunCall (cronsStarted w) apiName autoscaler] \<and>
               autoscalerCrons (snd res) apiName = Some (cronsStarted w) \<and>
               running (snd res) (cronsStarted w) = Some apiName))"
  unfolding newDeployment_def writes_def fault_def apiName_def res_def
  by (cases prevDeployment)
     (auto simp: workloadWrites_def applyK8sDeployment_def UpdateAutoscalerCron_def
        CreateDeployment_def UpdateDeployment_def DeleteDeployment_def call_def CronRun_def
        CronCancel_def Let_def split: option.splits sum.splits)

text \<open>
  A prior workload that never became ready is deleted and the create then fails: the
  registry still holds task 0.  A prior workload with a ready replica is updated and the
  registration is refreshed to task 1.
\<close>

theorem applyK8sDeployment_policy_witness:
  "fst (applyK8sDeployment exampleEnv exampleAPI (Some neverReady)
          (exampleWorld\<lparr>faults := failingCreate\<rparr>)) = Some (Err ''conflict'') \<and>
   trace (snd (applyK8sDeployment exampleEnv exampleAPI (Some neverReady)
          (exampleWorld\<lparr>faults := failingCreate\<rparr>))) =
     [DeleteDeploymentCall ''api-a'',
      CreateDeploymentCall (DeploymentSpec exampleEnv exampleAPI (Some neverReady))] \<and>
   autoscalerCrons (snd (applyK8sDeployment exampleEnv exampleAPI (Some neverReady)
          (exampleWorld\<lparr>faults := failingCreate\<rparr>))) ''a'' = Some 0 \<and>
   fst (applyK8sDeployment exampleEnv exampleAPI (Some exampleDeployment) exampleWorld) = None \<and>
   trace (snd (applyK8sDeployment exampleEnv exampleAPI (Some exampleDeployment) exampleWorld)) =
     [UpdateDeploymentCall (DeploymentSpec exampleEnv exampleAPI (Some exampleDeployment)),
      CronCancelCall 0, CronRunCall 1 ''a'' (Autoscaler 1)] \<and>
   autoscalerCrons (snd (applyK8sDeployment exampleEnv exampleAPI (Some exampleDeployment)
          exampleWorld)) ''a'' = Some 1"
  using applyK8sDeployment_policy[where env = exampleEnv and api = exampleAPI
          and prevDeployment = "Some neverReady"
          and w = "exampleWorld\<lparr>faults := failingCreate\<rparr>"]
        applyK8sDeployment_policy[where env = exampleEnv and api = exampleAPI
          and prevDeployment = "Some exampleDeployment" and w = exampleWorld]
  by (simp add: workloadWrites_def exampleAPI_def neverReady_def failingCreate_def ex_defs lookup_def)

section \<open>Teardown\<close>

lemma deleteK8sResources_no_S3:
  "filter isDeleteS3Dir (trace (snd (deleteK8sResources env apiName w))) =
     filter isDeleteS3Dir (trace w)"
  by (simp add: deleteK8sResources_def RunFirstErr_three cancelAndDeleteDeployment_def
      DeleteDeployment_def DeleteService_def DeleteVirtualService_def call_def CronCancel_def
      Let_def split: option.splits)

lemma deleteCache_result:
  "fst (deleteCache env apiName keepCache w) = None"
  "filter isDeleteS3Dir (trace (snd (deleteCache env apiName keepCache w))) =
     filter isDeleteS3Dir (trace w) @
       (if keepCache then []
        else [DeleteS3DirCall (Bucket env) (filepathJoin env ''apis'' apiName) True])"
  by (simp_all add: deleteCache_def deleteS3Resources_def RunFirstErr_def DeleteS3Dir_def
      call_def Let_def split: prod.splits)

lemma deleteFromDashboard_result:
  "fst (deleteFromDashboard env apiName w) = None"
  "filter isDeleteS3Dir (trace (snd (deleteFromDashboard env apiName w))) =
     filter isDeleteS3Dir (trace w)"
  by (simp_all add: deleteFromDashboard_def GetAllStatuses_def removeAPIFromDashboard_def
      PrintError_def call_def Let_def split: option.splits)

text \<open>
  Claim C8.  The error \<open>DeleteAPI\<close> returns is the error of the cluster-object deletion
  action and nothing else: whatever object storage and the dashboard service answer,
  their failures never reach the caller.  With \<open>keepCache\<close> set the call adds no
  object-storage deletion to the record of calls; with \<open>keepCache\<close> unset it adds exactly
  one, for the directory of the API, whether or not that deletion succeeds.
\<close>

theorem DeleteAPI_errors_and_cache:
  "fst (DeleteAPI env apiName keepCache w) = fst (deleteK8sResources env apiName w) \<and>
   filter isDeleteS3Dir (trace (snd (DeleteAPI env apiName keepCache w))) =
     filter isDeleteS3Dir (trace w) @
       (if keepCache then []
        else [DeleteS3DirCall (Bucket env) (filepathJoin env ''apis'' apiName) True])"
proof -
  let ?w1 = "snd (deleteK8sResources env apiName w)"
  let ?w2 = "snd (deleteCache env apiName keepCache ?w1)"
  let ?w3 = "snd (deleteFromDashboard env apiName ?w2)"
  have run: "RunFirstErr [deleteK8sResources env apiName, deleteCache env apiName keepCache,
                deleteFromDashboard env apiName] w
             = (fst (deleteK8sResources env apiName w), ?w3)"
    by (cases "fst (deleteK8sResources env apiName w)")
       (simp_all add: RunFirstErr_three deleteCache_result deleteFromDashboard_result)
  have res: "DeleteAPI env apiName keepCache w = (fst (deleteK8sResources env apiName w), ?w3)"
    by (simp add: DeleteAPI_def run split: option.splits)
  have "filter isDeleteS3Dir (trace ?w3) = filter isDeleteS3Dir (trace ?w2)"
    by (rule deleteFromDashboard_result)
  also have "\<dots> = filter isDeleteS3Dir (trace ?w1) @
       (if keepCache then []
        else [DeleteS3DirCall (Bucket env) (filepathJoin env ''apis'' apiName) True])"
    by (rule deleteCache_result)
  also have "filter isDeleteS3Dir (trace ?w1) = filter isDeleteS3Dir (trace w)"
    by (rule deleteK8sResources_no_S3)
  finally show ?thesis by (simp add: res)
qed

text \<open>
  Storage and dashboard fail: deleting \<open>a\<close> without \<open>keepCache\<close> still succeeds and has
  called the storage deletion; with \<open>keepCache\<close> it has not.  Deleting \<open>b\<close> returns the
  gateway's error.
\<close>

theorem DeleteAPI_errors_and_cache_witness:
  "fst (DeleteAPI exampleEnv ''a'' False (exampleWorld\<lparr>faults := failingStorage\<rparr>)) = None \<and>
   filter isDeleteS3Dir
     (trace (snd (DeleteAPI exampleEnv ''a'' False (exampleWorld\<lparr>faults := failingStorage\<rparr>))))
     = [DeleteS3DirCall ''bucket'' ''apis/a'' True] \<and>
   filter isDeleteS3Dir
     (trace (snd (DeleteAPI exampleEnv ''a'' True (exampleWorld\<lparr>faults := failingStorage\<rparr>))))
     = [] \<and>
   fst (DeleteAPI exampleEnv ''b'' True (exampleWorld\<lparr>faults := failingStorage\<rparr>))
     = Some (Err ''gateway'')"
proof -
  let ?w = "exampleWorld\<lparr>faults := failingStorage\<rparr>"
  have k8s: "fst (deleteK8sResources exampleEnv ''a'' ?w) = None"
    "fst (deleteK8sResources exampleEnv ''b'' ?w) = Some (Err ''gateway'')"
    by (simp_all add: deleteK8sResources_def RunFirstErr_three cancelAndDeleteDeployment_def
        DeleteDeployment_def DeleteService_def DeleteVirtualService_def call_def CronCancel_def
        Let_def failingStorage_def ex_defs)
  show ?thesis
    using DeleteAPI_errors_and_cache[of exampleEnv "''a''" False ?w]
      DeleteAPI_errors_and_cache[of exampleEnv "''a''" True ?w]
      DeleteAPI_errors_and_cache[of exampleEnv "''b''" True ?w] k8s
    by (simp add: ex_defs)
qed

section \<open>Deployed or not\<close>

text \<open>
  Claim C10, as the code has it.  Whatever the workload and endpoint tables hold,
  \<open>IsAPIDeployed\<close> reads the routing-rule object only: when that read fails the result is
  the read's error, and when it succeeds the result is true exactly when the routing-rule
  object exists under the API's cluster name.
\<close>

theorem IsAPIDeployed_result:
  "fst (IsAPIDeployed env apiName (w\<lparr>deployments := ds, services := ss\<rparr>)) =
     (case faults w (GetVirtualServiceCall (K8sName env apiName)) (length (trace w)) of
        Some err \<Rightarrow> Inl err
      | None \<Rightarrow> Inr (virtualServices w (K8sName env apiName) \<noteq> None))"
  by (simp add: IsAPIDeployed_def GetVirtualService_def call_def split: option.split)

text \<open>
  The routing-rule object of \<open>a\<close> exists, the gateway read fails, and the answer is the
  error, not true.
\<close>

theorem IsAPIDeployed_counterexample:
  "virtualServices (exampleWorld\<lparr>faults := \<lambda>c n. Some (Err ''gateway timeout'')\<rparr>)
      (K8sName exampleEnv ''a'') \<noteq> None \<and>
   fst (IsAPIDeployed exampleEnv ''a''
          (exampleWorld\<lparr>faults := \<lambda>c n. Some (Err ''gateway timeout'')\<rparr>))
     = Inl (Err ''gateway timeout'')"
  by (simp add: IsAPIDeployed_def GetVirtualService_def call_def ex_defs)

end
